theory Spec2Isabelle
  imports Main "HOL-Library.Sublist"
begin

section \<open>Entities\<close>

text \<open>
  The TypeORM entities of the federation core, as far as the verified functions read
  them. A nullable column or a relation that has not been loaded is an \<open>option\<close>
  (\<open>None\<close> is JavaScript's \<open>undefined\<close>). A server's \<open>port\<close> may be undefined.
\<close>

record server =
  scheme :: string
  host :: string
  port :: "nat option"

record post =
  post_id :: nat
  uuid :: string
  post_uri :: string
  post_server :: server
  content :: string
  deleted :: bool

text \<open>
  \<open>u_obj\<close> is the identity of the JavaScript object that holds a loaded user: the
  one place where the code compares entities (\<open>Array.prototype.includes\<close> in
  \<open>addFollower\<close>) compares object references, not column values.
\<close>

record user =
  u_obj :: nat
  u_id :: nat
  u_name :: string
  u_server :: server
  u_uri :: "string option"
  u_displayName :: "string option"
  u_summary :: string
  u_icon :: string
  liked :: "post list option"

record actor_entity =
  ae_uri :: string
  ae_inbox :: string
  ae_outbox :: string
  ae_followers :: string
  ae_following :: string

record group =
  g_id :: nat
  g_name :: string
  g_server :: server
  g_uri :: "string option"
  g_displayName :: "string option"
  g_summary :: string
  followingUsers :: "user list option"
  g_actor :: "actor_entity option"

section \<open>Actor URIs (idForUser, idForGroup, createActor)\<close>

text \<open>
  The object handed to \<open>URI.serialize\<close> of the uri-js library. The library is not
  part of the repository: \<open>serialize\<close> is a parameter of every function that calls it.
\<close>

record uri_components =
  c_scheme :: string
  c_host :: string
  c_port :: "nat option"
  c_path :: string

text \<open>The constants of \<open>AP\<close> (definitions/constants), a parameter as well.\<close>

record ap_constants =
  ap_Context :: string
  ap_InboxAddress :: string
  ap_OutboxAddress :: string
  ap_FollowersAddress :: string
  ap_FollowingAddress :: string

text \<open>JavaScript truthiness of a nullable string: defined and not empty.\<close>

definition truthy :: "string option \<Rightarrow> bool" where
  "truthy s = (case s of None \<Rightarrow> False | Some t \<Rightarrow> t \<noteq> [])"

definition idForUser :: "(uri_components \<Rightarrow> string) \<Rightarrow> user \<Rightarrow> string" where
  "idForUser serialize usr =
     (if truthy (u_uri usr) then the (u_uri usr)
      else serialize \<lparr>c_scheme = scheme (u_server usr), c_host = host (u_server usr),
                       c_port = port (u_server usr), c_path = ''/user/'' @ u_name usr\<rparr>)"

definition idForGroup :: "(uri_components \<Rightarrow> string) \<Rightarrow> group \<Rightarrow> string" where
  "idForGroup serialize grp =
     (if truthy (g_uri grp) then the (g_uri grp)
      else serialize \<lparr>c_scheme = scheme (g_server grp), c_host = host (g_server grp),
                       c_port = port (g_server grp), c_path = ''/group/'' @ g_name grp\<rparr>)"

text \<open>The actor object of a user, as far as its addresses go (\<open>createActor\<close>).\<close>

record user_actor =
  ua_id :: string
  ua_preferredUsername :: string
  ua_inbox :: string
  ua_outbox :: string
  ua_followers :: string
  ua_following :: string

definition createActor :: "(uri_components \<Rightarrow> string) \<Rightarrow> ap_constants \<Rightarrow> user \<Rightarrow> user_actor" where
  "createActor serialize ap usr =
     (let idAddress = idForUser serialize usr in
      \<lparr>ua_id = idAddress,
       ua_preferredUsername = u_name usr,
       ua_inbox = idAddress @ ''/'' @ ap_InboxAddress ap @ ''/'',
       ua_outbox = idAddress @ ''/'' @ ap_OutboxAddress ap @ ''/'',
       ua_followers = idAddress @ ''/'' @ ap_FollowersAddress ap @ ''/'',
       ua_following = idAddress @ ''/'' @ ap_FollowingAddress ap @ ''/''\<rparr>)"

section \<open>Paged collections\<close>

text \<open>A navigation link of a collection page: the collection and the page it leads to.\<close>

datatype page_link = PageLink string nat

record 'a collection =
  col_id :: string
  totalItems :: nat
  orderedItems :: "'a list"
  col_next :: "page_link option"
  col_prev :: "page_link option"

text \<open>
  Modelled from the spec: \<open>ActivityService.createPagedCollection\<close> (activity.service.ts is
  not among the sources). The page object exposes the total item count, the items on the
  requested page (1-indexed), and links to the next and previous pages when there are
  such pages; a page out of range has no items.
\<close>

definition createPagedCollection :: "'a list \<Rightarrow> nat \<Rightarrow> string \<Rightarrow> nat \<Rightarrow> 'a collection" where
  "createPagedCollection items pageSize collectionUri page =
     \<lparr>col_id = collectionUri,
      totalItems = length items,
      orderedItems = (if page = 0 then [] else take pageSize (drop ((page - 1) * pageSize) items)),
      col_next = (if 0 < page \<and> page * pageSize < length items
                  then Some (PageLink collectionUri (page + 1)) else None),
      col_prev = (if 1 < page then Some (PageLink collectionUri (page - 1)) else None)\<rparr>"

section \<open>Errors, payloads and the persistent state\<close>

text \<open>
  The exceptions the services throw, as values. \<open>Error\<close> is a plain JavaScript
  \<open>Error\<close> (a rejected lookup), \<open>TypeError\<close> a property read on \<open>undefined\<close>,
  \<open>DeliveryError\<close> the failure the delivery capability reports for some targets.
  \<open>BadRequestException None\<close> is the exception thrown without a message.
\<close>

datatype error =
    BadRequestException "string option"
  | NotImplementedException
  | ImATeapotException
  | InternalServerErrorException error
  | NotFoundException string
  | Error string
  | TypeError
  | DeliveryError "string option list"

text \<open>
  The body of a POST request (\<open>data: any\<close>): the fields of an ActivityPub activity the
  services read. \<open>audience\<close> is absent, an array, or some other truthy value.
\<close>

datatype audience = AudienceAbsent | AudienceArray "string list" | AudienceOther

record payload =
  pl_type :: string
  pl_id :: "string option"
  pl_actor :: "string option"
  pl_object :: "string option"
  pl_target :: "string option"
  pl_content :: "string option"
  pl_audience :: audience

record activity =
  a_uri :: "string option"
  a_type :: string
  sourceUser :: "user option"
  sourceGroup :: "group option"
  targetUser :: "user option"
  targetPost :: "post option"
  destinationGroups :: "group list option"
  destinationUsers :: "user option list option"
  activityObject :: payload

text \<open>
  The persistent store and the outside world. A table is the list of its entities as they
  were last saved, each with its relation arrays. \<open>next_obj\<close> numbers the JavaScript
  objects the repositories allocate, \<open>deliveries\<close> records every call of the delivery
  service with its target list, \<open>local_server\<close> is what \<open>ServerService.local()\<close> returns.
\<close>

record world =
  next_obj :: nat
  local_server :: server
  users :: "user list"
  groups :: "group list"
  posts :: "post list"
  activities :: "activity list"
  deliveries :: "(activity \<times> string option list) list"

text \<open>
  An asynchronous service call that is awaited: it returns a value or throws, and may
  change the world before either.
\<close>

type_synonym 'a io = "world \<Rightarrow> (error + 'a) \<times> world"

definition return_io :: "'a \<Rightarrow> 'a io" where
  "return_io x w = (Inr x, w)"

definition throw_io :: "error \<Rightarrow> 'a io" where
  "throw_io e w = (Inl e, w)"

definition bind_io :: "'a io \<Rightarrow> ('a \<Rightarrow> 'b io) \<Rightarrow> 'b io" where
  "bind_io m f w = (case m w of (Inl e, w') \<Rightarrow> (Inl e, w') | (Inr x, w') \<Rightarrow> f x w')"

text \<open>
  The promise an asynchronous function returns when it is called without \<open>await\<close>.
  Calling the function never throws; only awaiting a rejected promise does.
\<close>

datatype 'a promise = Fulfilled 'a | Rejected error

definition await :: "'a promise \<Rightarrow> error + 'a" where
  "await p = (case p of Fulfilled x \<Rightarrow> Inr x | Rejected e \<Rightarrow> Inl e)"

definition the_list :: "'a list option \<Rightarrow> 'a list" where
  "the_list xs = (case xs of None \<Rightarrow> [] | Some ys \<Rightarrow> ys)"

section \<open>Repositories\<close>

text \<open>
  \<open>Repository.save\<close>: the entity replaces the row with its primary key, or becomes a
  new row.
\<close>

fun upsert_by :: "('a \<Rightarrow> nat) \<Rightarrow> 'a \<Rightarrow> 'a list \<Rightarrow> 'a list" where
  "upsert_by key x [] = [x]"
| "upsert_by key x (y # ys) = (if key y = key x then x # ys else y # upsert_by key x ys)"

text \<open>
  A many-to-many relation is saved as rows of a join table, one row per related entity:
  an entity that occurs twice in the relation array of the saved object is stored once.
\<close>

definition insert_row :: "('a \<Rightarrow> nat) \<Rightarrow> 'a list \<Rightarrow> 'a \<Rightarrow> 'a list" where
  "insert_row key rows x = (if key x \<in> set (map key rows) then rows else rows @ [x])"

definition join_rows :: "('a \<Rightarrow> nat) \<Rightarrow> 'a list \<Rightarrow> 'a list" where
  "join_rows key xs = foldl (insert_row key) [] xs"

definition postRepository_save :: "post \<Rightarrow> world \<Rightarrow> world" where
  "postRepository_save p w = w\<lparr>posts := upsert_by post_id p (posts w)\<rparr>"

definition groupRepository_save :: "group \<Rightarrow> world \<Rightarrow> world" where
  "groupRepository_save g w =
     w\<lparr>groups := upsert_by g_id
                    (g\<lparr>followingUsers := map_option (join_rows u_id) (followingUsers g)\<rparr>)
                    (groups w)\<rparr>"

definition userRepository_save :: "user \<Rightarrow> world \<Rightarrow> world" where
  "userRepository_save u w =
     w\<lparr>users := upsert_by u_id (u\<lparr>liked := map_option (join_rows post_id) (liked u)\<rparr>)
                   (users w)\<rparr>"

text \<open>
  A repository builds new objects for the entities it returns: every loaded user gets
  an object identity no earlier object has.
\<close>

definition load_users :: "user list \<Rightarrow> world \<Rightarrow> user list \<times> world" where
  "load_users us w =
     (map (\<lambda>(u, i). u\<lparr>u_obj := i, liked := None\<rparr>) (zip us [next_obj w ..< next_obj w + length us]),
      w\<lparr>next_obj := next_obj w + length us\<rparr>)"

text \<open>\<open>groupRepository.findOne(id, { relations: ['followingUsers'] })\<close>\<close>

definition groupRepository_findOne_followingUsers :: "nat \<Rightarrow> world \<Rightarrow> group option \<times> world" where
  "groupRepository_findOne_followingUsers gid w =
     (case find (\<lambda>g. g_id g = gid) (groups w) of
        None \<Rightarrow> (None, w)
      | Some g \<Rightarrow>
          (case load_users (the_list (followingUsers g)) w of
             (us, w') \<Rightarrow> (Some (g\<lparr>followingUsers := Some us\<rparr>), w')))"

text \<open>\<open>userRepository.findOne(id, { relations: ['liked'] })\<close>\<close>

definition userRepository_findOne_liked :: "nat \<Rightarrow> world \<Rightarrow> user option \<times> world" where
  "userRepository_findOne_liked uid w =
     (case find (\<lambda>u. u_id u = uid) (users w) of
        None \<Rightarrow> (None, w)
      | Some u \<Rightarrow> (Some (u\<lparr>u_obj := next_obj w, liked := Some (the_list (liked u))\<rparr>),
                   w\<lparr>next_obj := Suc (next_obj w)\<rparr>))"

section \<open>GroupService, UserService, PostService\<close>

definition groupService_findLocalByName :: "string \<Rightarrow> group io" where
  "groupService_findLocalByName name w =
     (case find (\<lambda>g. g_name g = name \<and> g_server g = local_server w) (groups w) of
        Some g \<Rightarrow> (Inr (g\<lparr>followingUsers := None\<rparr>), w)
      | None \<Rightarrow> (Inl (Error (''Group '' @ name @ '' does not exist on this server'')), w))"

definition groupService_getFollowers :: "group \<Rightarrow> world \<Rightarrow> group option \<times> world" where
  "groupService_getFollowers grp w = groupRepository_findOne_followingUsers (g_id grp) w"

text \<open>
  \<open>includes(user)\<close> is JavaScript's SameValueZero on objects: it asks whether this very
  object is in the array.
\<close>

definition addFollower :: "group \<Rightarrow> user \<Rightarrow> bool io" where
  "addFollower grp usr w =
     (case groupRepository_findOne_followingUsers (g_id grp) w of
        (None, w1) \<Rightarrow> (Inl TypeError, w1)
      | (Some fullGroup, w1) \<Rightarrow>
          (case followingUsers fullGroup of
             None \<Rightarrow> (Inr True, groupRepository_save (fullGroup\<lparr>followingUsers := Some [usr]\<rparr>) w1)
           | Some fus \<Rightarrow>
               if u_obj usr \<notin> set (map u_obj fus)
               then (Inr True,
                     groupRepository_save (fullGroup\<lparr>followingUsers := Some (fus @ [usr])\<rparr>) w1)
               else (Inr False, w1)))"

definition userService_findLocalByName :: "string \<Rightarrow> user io" where
  "userService_findLocalByName name w =
     (case find (\<lambda>u. u_name u = name \<and> u_server u = local_server w) (users w) of
        Some u \<Rightarrow> (Inr (u\<lparr>u_obj := next_obj w, liked := None\<rparr>), w\<lparr>next_obj := Suc (next_obj w)\<rparr>)
      | None \<Rightarrow> (Inl (Error (''User '' @ name @ '' does not exist on this server'')), w))"

text \<open>
  Modelled from the spec: \<open>UserService.findByUri\<close> is called by \<open>handleIncoming\<close> and
  is not in the service's source. The actor of a Follow has to be resolvable from
  \<open>data.actor\<close>; a lookup that finds nothing fails with \<open>NotFound\<close>.
\<close>

definition userService_findByUri :: "string option \<Rightarrow> user io" where
  "userService_findByUri uri w =
     (case (case uri of None \<Rightarrow> None | Some s \<Rightarrow> find (\<lambda>u. u_uri u = Some s) (users w)) of
        Some u \<Rightarrow> (Inr (u\<lparr>u_obj := next_obj w, liked := None\<rparr>), w\<lparr>next_obj := Suc (next_obj w)\<rparr>)
      | None \<Rightarrow> (Inl (NotFoundException (the_list uri)), w))"

definition getLikes :: "user \<Rightarrow> world \<Rightarrow> user option \<times> world" where
  "getLikes usr w = userRepository_findOne_liked (u_id usr) w"

definition addLike :: "user \<Rightarrow> post \<Rightarrow> user io" where
  "addLike usr pst w =
     (case getLikes usr w of
        (None, w1) \<Rightarrow> (Inl TypeError, w1)
      | (Some result, w1) \<Rightarrow>
          (case liked result of
             None \<Rightarrow> (Inl TypeError, w1)
           | Some ls \<Rightarrow>
               (let result' = result\<lparr>liked := Some (ls @ [pst])\<rparr>
                in (Inr result', userRepository_save result' w1))))"

text \<open>\<open>PostService.findByUri\<close>: \<open>findOneOrFail({uri})\<close>.\<close>

definition postService_findByUri :: "string option \<Rightarrow> post io" where
  "postService_findByUri uri w =
     (case (case uri of None \<Rightarrow> None | Some s \<Rightarrow> find (\<lambda>p. post_uri p = s) (posts w)) of
        Some p \<Rightarrow> (Inr p, w)
      | None \<Rightarrow> (Inl (Error ''EntityNotFound''), w))"

text \<open>\<open>postRepository.findOne({ uuid })\<close>\<close>

definition postRepository_findOne_uuid :: "string \<Rightarrow> world \<Rightarrow> post option" where
  "postRepository_findOne_uuid u w = find (\<lambda>p. uuid p = u) (posts w)"

definition isLocalPost :: "post \<Rightarrow> world \<Rightarrow> bool" where
  "isLocalPost pst w =
     (let local = local_server w in
      host local = host (post_server pst)
      \<and> scheme local = scheme (post_server pst)
      \<and> (port local = port (post_server pst) \<or> port (post_server pst) = None))"

definition softDelete :: "post \<Rightarrow> post io" where
  "softDelete pst w =
     (if isLocalPost pst w
      then (let pst' = pst\<lparr>deleted := True\<rparr> in (Inr pst', postRepository_save pst' w))
      else (Inl (BadRequestException (Some (''Can'' @ [CHR 0x27] @ ''t delete a non-local post''))), w))"

section \<open>ActivityService\<close>

text \<open>
  Modelled from the spec: \<open>ActivityService.findByUri\<close> (activity.service.ts is not among
  the sources). The dedup lookup: the stored activity with this URI, or nothing.
\<close>

definition activityService_findByUri :: "string option \<Rightarrow> world \<Rightarrow> activity option" where
  "activityService_findByUri uri w =
     (case uri of None \<Rightarrow> None | Some s \<Rightarrow> find (\<lambda>a. a_uri a = Some s) (activities w))"

text \<open>
  Modelled from the spec: \<open>ActivityService.create\<close>. An unsaved activity shell built from
  the raw payload; it has no \<open>uri\<close>, which is present only once the activity is persisted.
\<close>

definition activityService_create :: "payload \<Rightarrow> activity" where
  "activityService_create data =
     \<lparr>a_uri = None, a_type = pl_type data, sourceUser = None, sourceGroup = None,
      targetUser = None, targetPost = None, destinationGroups = None,
      destinationUsers = None, activityObject = data\<rparr>"

text \<open>
  Modelled from the spec: the destination set of an activity is append-only and
  deduplicated by actor. \<open>add_destination\<close> adds a group unless a group with its id is
  there; \<open>merge_destinations\<close> is the union of the stored and the submitted groups.
\<close>

definition add_destination :: "group list \<Rightarrow> group \<Rightarrow> group list" where
  "add_destination gs g = (if g_id g \<in> set (map g_id gs) then gs else gs @ [g])"

definition merge_destinations :: "group list option \<Rightarrow> group list option \<Rightarrow> group list option" where
  "merge_destinations stored submitted =
     (if stored = None \<and> submitted = None then None
      else Some (foldl add_destination [] (the_list stored @ the_list submitted)))"

text \<open>
  Modelled from the spec: \<open>ActivityService.save\<close>, an upsert. An activity that has a
  persisted identity (its \<open>uri\<close> is that of a stored activity) replaces the stored one, with
  the destination groups merged and not overwritten. Any other activity becomes a new
  record, whose \<open>uri\<close> is the external URI of its payload unless it has one already.
\<close>

definition activityService_save :: "activity \<Rightarrow> world \<Rightarrow> activity \<times> world" where
  "activityService_save ent w =
     (case (case a_uri ent of None \<Rightarrow> None
            | Some u \<Rightarrow> find (\<lambda>a. a_uri a = Some u) (activities w)) of
        Some stored \<Rightarrow>
          (let merged = ent\<lparr>destinationGroups :=
                              merge_destinations (destinationGroups stored) (destinationGroups ent)\<rparr>
           in (merged,
               w\<lparr>activities := map (\<lambda>a. if a_uri a = a_uri ent then merged else a) (activities w)\<rparr>))
      | None \<Rightarrow>
          (let row = ent\<lparr>a_uri := (case a_uri ent of Some u \<Rightarrow> Some u
                                     | None \<Rightarrow> pl_id (activityObject ent)),
                          destinationGroups := merge_destinations None (destinationGroups ent)\<rparr>
           in (row, w\<lparr>activities := activities w @ [row]\<rparr>)))"

text \<open>
  Modelled from the spec: \<open>ActivityService.createAcceptActivity\<close>. The Accept activity a
  group synthesizes: it references the original Follow and is targeted at the follower.
\<close>

definition createAcceptActivity :: "string option \<Rightarrow> string option \<Rightarrow> string option \<Rightarrow> payload" where
  "createAcceptActivity actor object target =
     \<lparr>pl_type = ''Accept'', pl_id = None, pl_actor = actor, pl_object = object,
      pl_target = target, pl_content = None, pl_audience = AudienceAbsent\<rparr>"

text \<open>
  Modelled from the spec: \<open>ActivityService.deliverTo\<close>. It invokes the delivery capability
  (the parameter \<open>deliver\<close>, success or failure per target) for each target independently
  and settles once all attempts have: the promise is rejected when some target failed.
  Being asynchronous, the call itself returns the promise and does not throw.
\<close>

definition deliverTo ::
  "(activity \<Rightarrow> string option \<Rightarrow> bool) \<Rightarrow> activity \<Rightarrow> string option list \<Rightarrow> world
     \<Rightarrow> unit promise \<times> world" where
  "deliverTo deliver act targets w =
     ((if list_all (deliver act) targets then Fulfilled ()
       else Rejected (DeliveryError (filter (\<lambda>t. \<not> deliver act t) targets))),
      w\<lparr>deliveries := deliveries w @ [(act, targets)]\<rparr>)"

section \<open>ApGroupService\<close>

definition apGroup_acceptPostRequest ::
  "(activity \<Rightarrow> string option \<Rightarrow> bool) \<Rightarrow> string \<Rightarrow> payload \<Rightarrow> payload io" where
  "apGroup_acceptPostRequest deliver groupname data =
     bind_io (groupService_findLocalByName groupname) (\<lambda>grp w.
       let act = data in
       if pl_type act = ''Accept'' then
         (case activityService_findByUri (pl_object act) w of
            None \<Rightarrow> (Inl TypeError, w)
          | Some request \<Rightarrow>
              (let toAccept = sourceUser request;
                   acceptEntity = \<lparr>a_uri = None, a_type = pl_type act, sourceUser = None,
                                   sourceGroup = Some grp, targetUser = None, targetPost = None,
                                   destinationGroups = None, destinationUsers = Some [toAccept],
                                   activityObject = act\<rparr>
               in (case activityService_save acceptEntity w of
                     (saved, w1) \<Rightarrow>
                       (case deliverTo deliver saved [pl_target act] w1 of
                          (result, w2) \<Rightarrow>
                            (case await result of
                               Inr _ \<Rightarrow> (Inr (activityObject saved), w2)
                             | Inl e \<Rightarrow> (Inl e, w2))))))
       else if pl_type act \<in> set [''Create'', ''Update'', ''Delete'', ''Follow'', ''Add'',
                                    ''Remove'', ''Like'', ''Block'', ''Undo'', ''Reject'']
       then (Inl ImATeapotException, w)
       else (Inl (BadRequestException (Some (''Invalid activity type '' @ pl_type act))), w))"

text \<open>
  \<open>deliverToFollowers\<close>. The filter callback reads \<open>activity.sourceUser.uri\<close>, so a
  missing source user is a \<open>TypeError\<close> as soon as there is a follower to test. The
  promise of \<open>deliverTo\<close> is bound to \<open>result\<close> and never awaited: the \<open>catch\<close> block
  sees only what the call throws, and the call of an asynchronous function throws nothing.
\<close>

definition deliverToFollowers ::
  "(activity \<Rightarrow> string option \<Rightarrow> bool) \<Rightarrow> activity \<Rightarrow> group \<Rightarrow> activity io" where
  "deliverToFollowers deliver act grp w =
     (case groupService_getFollowers grp w of
        (None, w1) \<Rightarrow> (Inl TypeError, w1)
      | (Some withFollowers, w1) \<Rightarrow>
          (case followingUsers withFollowers of
             None \<Rightarrow> (Inl TypeError, w1)
           | Some fus \<Rightarrow>
               (case (case sourceUser act of
                        None \<Rightarrow> (if fus = [] then Some [] else None)
                      | Some src \<Rightarrow>
                          Some (map u_uri (filter (\<lambda>f. u_uri f \<noteq> u_uri src) fus))) of
                  None \<Rightarrow> (Inl TypeError, w1)
                | Some urisWithoutSender \<Rightarrow>
                    (case deliverTo deliver act urisWithoutSender w1 of
                       (result, w2) \<Rightarrow> (Inr act, w2)))))"

text \<open>What \<open>handleIncoming\<close> returns: its type is \<open>Promise<any>\<close>.\<close>

datatype incoming_result =
    RetActivity activity
  | RetPayload payload
  | RetBool bool
  | RetUndefined

definition handleIncoming ::
  "(activity \<Rightarrow> string option \<Rightarrow> bool) \<Rightarrow> string \<Rightarrow> payload \<Rightarrow> incoming_result io" where
  "handleIncoming deliver groupname data =
     bind_io (groupService_findLocalByName groupname) (\<lambda>grp w.
       let act = data;
           activityEntity0 = (case activityService_findByUri (pl_id act) w of
                                Some a \<Rightarrow> a
                              | None \<Rightarrow> activityService_create act);
           activityEntity = activityEntity0\<lparr>destinationGroups :=
                              (case destinationGroups activityEntity0 of
                                 Some gs \<Rightarrow> Some (gs @ [grp])
                               | None \<Rightarrow> Some [grp])\<rparr>
       in
       if pl_type act = ''Create'' then
         (if truthy (a_uri activityEntity) then
            (let pushed = activityEntity\<lparr>destinationGroups :=
                            Some (the_list (destinationGroups activityEntity) @ [grp])\<rparr>
             in (case pl_audience act of
                   AudienceOther \<Rightarrow> (Inl (BadRequestException None), w)
                 | aud \<Rightarrow>
                     (case g_actor grp of
                        None \<Rightarrow> (Inl TypeError, w)
                      | Some ga \<Rightarrow>
                          (let act' = act\<lparr>pl_audience := AudienceArray
                                        ((case aud of AudienceArray xs \<Rightarrow> xs | _ \<Rightarrow> [])
                                         @ [ae_followers ga])\<rparr>;
                               stamped = pushed\<lparr>activityObject := act'\<rparr>
                           in (case activityService_save stamped w of
                                 (saved, w1) \<Rightarrow>
                                   bind_io (deliverToFollowers deliver saved grp)
                                     (\<lambda>a. return_io (RetActivity a)) w1)))))
          else (Inr RetUndefined, w))
       else if pl_type act = ''Follow'' then
         bind_io (userService_findByUri (pl_actor data)) (\<lambda>usr w1.
           (case activityService_save activityEntity w1 of
              (saved, w2) \<Rightarrow>
                bind_io (addFollower grp usr) (\<lambda>result.
                  if result then
                    (let accept = createAcceptActivity (g_uri grp) (pl_id act) (u_uri usr)
                     in bind_io (apGroup_acceptPostRequest deliver (g_name grp) accept)
                          (\<lambda>response. return_io (RetPayload response)))
                  else return_io (RetBool result)) w2)) w
       else (Inl NotImplementedException, w))"

definition followingForGroup :: "string \<Rightarrow> 'a list io" where
  "followingForGroup name = return_io []"

section \<open>ApUserService\<close>

text \<open>
  \<open>ApPostService\<close> and \<open>activityFromObject\<close> are not among the sources. What the user
  outbox calls of them to wrap a bare object and to create and delete posts is a parameter:
  \<open>newGlobalPost\<close> is \<open>createNewGlobalPost\<close> followed by \<open>submitNewGlobalPost\<close>.
\<close>

record outbox_parameters =
  activityFromObject :: "payload \<Rightarrow> user \<Rightarrow> payload"
  newGlobalPost :: "payload \<Rightarrow> post io"
  deletePostFromActivity :: "payload \<Rightarrow> post io"

text \<open>
  Modelled from the spec: \<open>ApPostService.getPostEntityByUri\<close>. The object of a Like
  resolves to a known post by its URI, through \<open>PostService.findByUri\<close>.
\<close>

definition getPostEntityByUri :: "string option \<Rightarrow> post io" where
  "getPostEntityByUri uri = postService_findByUri uri"

definition likePost :: "user \<Rightarrow> post \<Rightarrow> user io" where
  "likePost usr pst = addLike usr pst"

definition activity_entity :: "user \<Rightarrow> post \<Rightarrow> payload \<Rightarrow> activity" where
  "activity_entity usr pst act =
     \<lparr>a_uri = None, a_type = pl_type act, sourceUser = None, sourceGroup = None,
      targetUser = Some usr, targetPost = Some pst, destinationGroups = None,
      destinationUsers = None, activityObject = act\<rparr>"

definition save_and_return :: "activity \<Rightarrow> payload io" where
  "save_and_return ent w =
     (case activityService_save ent w of (saved, w1) \<Rightarrow> (Inr (activityObject saved), w1))"

definition apUser_acceptPostRequest :: "outbox_parameters \<Rightarrow> string \<Rightarrow> payload \<Rightarrow> payload io" where
  "apUser_acceptPostRequest aps username data =
     bind_io (userService_findLocalByName username) (\<lambda>usr.
       let act = (if pl_content data = None then data else activityFromObject aps data usr) in
       if pl_type act = ''Create'' then
         bind_io (newGlobalPost aps act) (\<lambda>postEntity.
           save_and_return (activity_entity usr postEntity act))
       else if pl_type act = ''Delete'' then
         bind_io (deletePostFromActivity aps act) (\<lambda>deletedPost.
           save_and_return (activity_entity usr deletedPost act))
       else if pl_type act \<in> set [''Update'', ''Follow'', ''Add'', ''Remove'']
       then throw_io NotImplementedException
       else if pl_type act = ''Like'' then
         bind_io (getPostEntityByUri (pl_object act)) (\<lambda>likedPost.
           bind_io (likePost usr likedPost) (\<lambda>likingUser.
             save_and_return (activity_entity likingUser likedPost act)))
       else if pl_type act \<in> set [''Block'', ''Undo'']
       then throw_io NotImplementedException
       else throw_io (BadRequestException (Some (''Invalid activity type '' @ pl_type act))))"

section \<open>Example data\<close>

text \<open>
  A small instance: the local server, a remote server, a local group with three remote
  followers, a fourth remote user, a local user, a local and a remote post.
\<close>

definition ex_local :: server where
  "ex_local = \<lparr>scheme = ''https'', host = ''themis.example'', port = Some 443\<rparr>"

definition ex_remote :: server where
  "ex_remote = \<lparr>scheme = ''https'', host = ''remote.example'', port = None\<rparr>"

definition ex_user :: "nat \<Rightarrow> string \<Rightarrow> user" where
  "ex_user i n =
     \<lparr>u_obj = 0, u_id = i, u_name = n, u_server = ex_remote,
      u_uri = Some (''https://remote.example/user/'' @ n), u_displayName = None,
      u_summary = [], u_icon = [], liked = None\<rparr>"

definition ex_alice :: user where
  "ex_alice =
     \<lparr>u_obj = 0, u_id = 5, u_name = ''alice'', u_server = ex_local,
      u_uri = Some ''https://themis.example/user/alice'', u_displayName = None,
      u_summary = [], u_icon = [], liked = None\<rparr>"

definition ex_group :: group where
  "ex_group =
     \<lparr>g_id = 1, g_name = ''g'', g_server = ex_local,
      g_uri = Some ''https://themis.example/group/g'', g_displayName = None, g_summary = [],
      followingUsers = Some [ex_user 1 ''u1'', ex_user 2 ''u2'', ex_user 3 ''u3''],
      g_actor = Some \<lparr>ae_uri = ''https://themis.example/group/g'',
                       ae_inbox = ''https://themis.example/group/g/inbox/'',
                       ae_outbox = ''https://themis.example/group/g/outbox/'',
                       ae_followers = ''https://themis.example/group/g/followers/'',
                       ae_following = ''https://themis.example/group/g/following/''\<rparr>\<rparr>"

definition ex_post :: post where
  "ex_post =
     \<lparr>post_id = 1, uuid = ''p1'', post_uri = ''https://themis.example/post/p1'',
      post_server = ex_local, content = ''hello'', deleted = False\<rparr>"

definition ex_remote_post :: post where
  "ex_remote_post =
     \<lparr>post_id = 2, uuid = ''p2'', post_uri = ''https://remote.example/post/p2'',
      post_server = ex_remote, content = ''bonjour'', deleted = False\<rparr>"

definition ex_world :: world where
  "ex_world =
     \<lparr>next_obj = 0, local_server = ex_local,
      users = [ex_user 1 ''u1'', ex_user 2 ''u2'', ex_user 3 ''u3'', ex_user 4 ''u4'', ex_alice],
      groups = [ex_group], posts = [ex_post, ex_remote_post], activities = [],
      deliveries = []\<rparr>"

definition ex_activity :: "string \<Rightarrow> string \<Rightarrow> payload" where
  "ex_activity t n =
     \<lparr>pl_type = t, pl_id = Some (''https://remote.example/activity/'' @ n),
      pl_actor = Some (''https://remote.example/user/'' @ n),
      pl_object = Some ''https://themis.example/group/g'', pl_target = None,
      pl_content = None, pl_audience = AudienceAbsent\<rparr>"

definition ex_ap :: ap_constants where
  "ex_ap = \<lparr>ap_Context = ''https://www.w3.org/ns/activitystreams'', ap_InboxAddress = ''inbox'',
            ap_OutboxAddress = ''outbox'', ap_FollowersAddress = ''followers'',
            ap_FollowingAddress = ''following''\<rparr>"

text \<open>A stored Create activity sent by u2, and the state that holds it.\<close>

definition ex_create :: activity where
  "ex_create =
     \<lparr>a_uri = Some ''https://remote.example/activity/u2'', a_type = ''Create'',
      sourceUser = Some (ex_user 2 ''u2''), sourceGroup = None, targetUser = None,
      targetPost = None, destinationGroups = None, destinationUsers = None,
      activityObject = ex_activity ''Create'' ''u2''\<rparr>"

definition ex_world_known :: world where
  "ex_world_known = ex_world\<lparr>activities := [ex_create]\<rparr>"

text \<open>Stand-ins for the services that are parameters of the user outbox.\<close>

definition ex_aps :: outbox_parameters where
  "ex_aps =
     \<lparr>activityFromObject = (\<lambda>data usr. data\<lparr>pl_type := ''Create'', pl_content := None\<rparr>),
      newGlobalPost = (\<lambda>act. throw_io (Error ''no post service'')),
      deletePostFromActivity = (\<lambda>act. throw_io (Error ''no post service''))\<rparr>"

definition ex_like :: payload where
  "ex_like =
     \<lparr>pl_type = ''Like'', pl_id = None, pl_actor = Some ''https://themis.example/user/alice'',
      pl_object = Some ''https://themis.example/post/p1'', pl_target = None,
      pl_content = None, pl_audience = AudienceAbsent\<rparr>"

definition ex_accept :: "string \<Rightarrow> payload" where
  "ex_accept n =
     \<lparr>pl_type = ''Accept'', pl_id = None, pl_actor = Some ''https://themis.example/group/g'',
      pl_object = Some (''https://remote.example/activity/'' @ n),
      pl_target = Some (''https://remote.example/user/'' @ n), pl_content = None,
      pl_audience = AudienceAbsent\<rparr>"

text \<open>The state after the group has received one Follow from u4.\<close>

definition ex_world_followed :: world where
  "ex_world_followed =
     snd (handleIncoming (\<lambda>a t. True) ''g'' (ex_activity ''Follow'' ''u4'') ex_world)"

section \<open>Properties of the activity store\<close>

text \<open>The stored activities with a given URI.\<close>

definition records_for :: "string \<Rightarrow> world \<Rightarrow> activity list" where
  "records_for u w = filter (\<lambda>a. a_uri a = Some u) (activities w)"

text \<open>No group occurs twice among the destination groups of an activity.\<close>

definition distinct_destinations :: "activity \<Rightarrow> bool" where
  "distinct_destinations a = distinct (map g_id (the_list (destinationGroups a)))"

text \<open>
  What a call may do to the records of a URI: leave at most one where there was none, add
  none where there was one, and leave every record it wrote without duplicate destinations.
\<close>

definition dedup_step :: "string \<Rightarrow> world \<Rightarrow> world \<Rightarrow> bool" where
  "dedup_step u w w' =
     (length (records_for u w') \<le> max 1 (length (records_for u w))
      \<and> (\<forall>a \<in> set (records_for u w'). a \<in> set (records_for u w) \<or> distinct_destinations a))"

section \<open>Theorems\<close>

text \<open>
  C7. For every user and group actor, \<open>idForUser\<close> / \<open>idForGroup\<close> return the stored
  \<open>uri\<close> when it is set (defined and not the empty string, JavaScript's truthiness), and
  otherwise the URI serialized from the home server's scheme, host and port with the path
  \<open>/user/{name}\<close>, respectively \<open>/group/{name}\<close>. The value is a function of the actor
  alone, so repeated calls on the same actor agree.
\<close>

theorem idFor_actor_uri:
  "idForUser ser (usr\<lparr>u_uri := Some (c # cs)\<rparr>) = c # cs
   \<and> idForUser ser (usr\<lparr>u_uri := None\<rparr>) =
       ser \<lparr>c_scheme = scheme (u_server usr), c_host = host (u_server usr),
            c_port = port (u_server usr), c_path = ''/user/'' @ u_name usr\<rparr>
   \<and> idForUser ser (usr\<lparr>u_uri := Some []\<rparr>) = idForUser ser (usr\<lparr>u_uri := None\<rparr>)
   \<and> idForGroup ser (grp\<lparr>g_uri := Some (c # cs)\<rparr>) = c # cs
   \<and> idForGroup ser (grp\<lparr>g_uri := None\<rparr>) =
       ser \<lparr>c_scheme = scheme (g_server grp), c_host = host (g_server grp),
            c_port = port (g_server grp), c_path = ''/group/'' @ g_name grp\<rparr>
   \<and> idForGroup ser (grp\<lparr>g_uri := Some []\<rparr>) = idForGroup ser (grp\<lparr>g_uri := None\<rparr>)"
  by (simp add: idForUser_def idForGroup_def truthy_def)

text \<open>
  C5. Over the ordered sequence \<open>[a, b, c, d, e]\<close> with page size 2, page 2 holds the
  items \<open>[c, d]\<close>, reports 5 items in total and has both a previous and a next link;
  page 3 holds \<open>[e]\<close> and has no next link.
\<close>

theorem createPagedCollection_example:
  "orderedItems (createPagedCollection [a, b, c, d, e] 2 uri 2) = [c, d]
   \<and> totalItems (createPagedCollection [a, b, c, d, e] 2 uri 2) = 5
   \<and> col_prev (createPagedCollection [a, b, c, d, e] 2 uri 2) \<noteq> None
   \<and> col_next (createPagedCollection [a, b, c, d, e] 2 uri 2) \<noteq> None
   \<and> orderedItems (createPagedCollection [a, b, c, d, e] 2 uri 3) = [e]
   \<and> col_next (createPagedCollection [a, b, c, d, e] 2 uri 3) = None"
  by (simp add: createPagedCollection_def)

text \<open>
  C9. For every group name and every state, \<open>followingForGroup\<close> returns the empty
  array and leaves the state as it is.
\<close>

theorem followingForGroup_empty:
  "followingForGroup name w = (Inr [], w)"
  by (simp add: followingForGroup_def return_io_def)

subsection \<open>Soft delete\<close>

lemma find_upsert_by_uuid:
  "\<forall>p \<in> set ps. uuid p = uuid x \<longrightarrow> post_id p = post_id x \<Longrightarrow>
   find (\<lambda>p. uuid p = uuid x) (upsert_by post_id x ps) = Some x"
  by (induction ps) auto

lemma upsert_by_mem: "x \<in> set (upsert_by key x xs)"
  by (induction xs) auto

text \<open>
  C6. A post is local when its server has the host and the scheme of the local server and
  its port, or no port at all (\<open>isLocalPost\<close>). For every local post, \<open>softDelete\<close>
  returns the post with \<open>deleted = true\<close> and saves it: it is a row of the post table, and
  the lookup by its UUID returns it when that UUID belongs to no row with another id. For
  every post that is not local, \<open>softDelete\<close> fails with \<open>BadRequest\<close> and the state is
  unchanged.
\<close>

theorem softDelete_local_or_BadRequest:
  "(isLocalPost pst w \<longrightarrow>
      fst (softDelete pst w) = Inr (pst\<lparr>deleted := True\<rparr>)
      \<and> pst\<lparr>deleted := True\<rparr> \<in> set (posts (snd (softDelete pst w)))
      \<and> ((\<forall>p \<in> set (posts w). uuid p = uuid pst \<longrightarrow> post_id p = post_id pst) \<longrightarrow>
           postRepository_findOne_uuid (uuid pst) (snd (softDelete pst w))
             = Some (pst\<lparr>deleted := True\<rparr>)))
   \<and> (\<not> isLocalPost pst w \<longrightarrow>
      softDelete pst w =
        (Inl (BadRequestException (Some (''Can'' @ [CHR 0x27] @ ''t delete a non-local post''))), w))"
proof -
  have "find (\<lambda>p. uuid p = uuid pst) (upsert_by post_id (pst\<lparr>deleted := True\<rparr>) (posts w))
          = Some (pst\<lparr>deleted := True\<rparr>)"
    if "\<forall>p \<in> set (posts w). uuid p = uuid pst \<longrightarrow> post_id p = post_id pst"
    using find_upsert_by_uuid [of "posts w" "pst\<lparr>deleted := True\<rparr>"] that by simp
  then show ?thesis
    by (simp add: softDelete_def postRepository_save_def postRepository_findOne_uuid_def
        upsert_by_mem Let_def)
qed

theorem softDelete_witness:
  "isLocalPost ex_post ex_world
   \<and> fst (softDelete ex_post ex_world) = Inr (ex_post\<lparr>deleted := True\<rparr>)
   \<and> posts (snd (softDelete ex_post ex_world)) = [ex_post\<lparr>deleted := True\<rparr>, ex_remote_post]
   \<and> postRepository_findOne_uuid ''p1'' (snd (softDelete ex_post ex_world))
        = Some (ex_post\<lparr>deleted := True\<rparr>)
   \<and> \<not> isLocalPost ex_remote_post ex_world
   \<and> fst (softDelete ex_remote_post ex_world)
        = Inl (BadRequestException (Some (''Can'' @ [CHR 0x27] @ ''t delete a non-local post'')))
   \<and> snd (softDelete ex_remote_post ex_world) = ex_world"
proof -
  have loc: "isLocalPost ex_post ex_world"
    by (simp add: isLocalPost_def ex_post_def ex_world_def ex_local_def)
  have rem: "\<not> isLocalPost ex_remote_post ex_world"
    by (simp add: isLocalPost_def ex_remote_post_def ex_world_def ex_local_def ex_remote_def)
  have uu: "\<forall>p \<in> set (posts ex_world). uuid p = uuid ex_post \<longrightarrow> post_id p = post_id ex_post"
    by (simp add: ex_world_def ex_post_def ex_remote_post_def)
  have ps: "posts (snd (softDelete ex_post ex_world)) = [ex_post\<lparr>deleted := True\<rparr>, ex_remote_post]"
    using loc by (simp add: softDelete_def postRepository_save_def Let_def ex_world_def ex_post_def ex_remote_post_def)
  have u1: "uuid ex_post = ''p1''" by (simp add: ex_post_def)
  show ?thesis
    using softDelete_local_or_BadRequest [of ex_post ex_world]
      softDelete_local_or_BadRequest [of ex_remote_post ex_world] loc rem uu ps u1
    by simp
qed

subsection \<open>Dispatch of unsupported activity types\<close>

lemma group_found:
  "find (\<lambda>g. g_name g = n \<and> g_server g = local_server w) (groups w) = Some g0 \<Longrightarrow>
   groupService_findLocalByName n w = (Inr (g0\<lparr>followingUsers := None\<rparr>), w)"
  by (simp add: groupService_findLocalByName_def)

lemma user_found:
  "find (\<lambda>u. u_name u = n \<and> u_server u = local_server w) (users w) = Some u0 \<Longrightarrow>
   userService_findLocalByName n w =
     (Inr (u0\<lparr>u_obj := next_obj w, liked := None\<rparr>), w\<lparr>next_obj := Suc (next_obj w)\<rparr>)"
  by (simp add: userService_findLocalByName_def)

text \<open>
  C4, as the code has it. Let the user and the group exist on this server, let the payload
  be an activity (no \<open>content\<close> of its own) whose type is outside the recognized set
  Create, Delete, Follow, Accept, Reject, Like, Update, Add, Remove, Block, Undo. Then
  the user outbox fails with \<open>BadRequest\<close> and the message
  \<open>Invalid activity type <type>\<close>, and with \<open>NotImplemented\<close> for type Update; the
  group outbox fails with the same \<open>BadRequest\<close>, and with \<open>ImATeapot\<close> for type Update;
  the group inbox fails with \<open>NotImplemented\<close> for both. The group paths leave the
  state unchanged.
\<close>

theorem dispatch_unsupported_type:
  assumes u: "find (\<lambda>u. u_name u = username \<and> u_server u = local_server w) (users w) = Some u0"
    and g: "find (\<lambda>g. g_name g = groupname \<and> g_server g = local_server w) (groups w) = Some g0"
    and c: "pl_content data = None"
    and t: "pl_type data \<notin> set [''Create'', ''Delete'', ''Follow'', ''Accept'', ''Reject'', ''Like'',
                                  ''Update'', ''Add'', ''Remove'', ''Block'', ''Undo'']"
  shows "fst (apUser_acceptPostRequest aps username data w)
           = Inl (BadRequestException (Some (''Invalid activity type '' @ pl_type data)))
       \<and> fst (apUser_acceptPostRequest aps username (data\<lparr>pl_type := ''Update''\<rparr>) w)
           = Inl NotImplementedException
       \<and> apGroup_acceptPostRequest deliver groupname data w
           = (Inl (BadRequestException (Some (''Invalid activity type '' @ pl_type data))), w)
       \<and> apGroup_acceptPostRequest deliver groupname (data\<lparr>pl_type := ''Update''\<rparr>) w
           = (Inl ImATeapotException, w)
       \<and> handleIncoming deliver groupname data w = (Inl NotImplementedException, w)
       \<and> handleIncoming deliver groupname (data\<lparr>pl_type := ''Update''\<rparr>) w
           = (Inl NotImplementedException, w)
       \<and> suffix (pl_type data) (''Invalid activity type '' @ pl_type data)"
proof -
  have 1: "fst (apUser_acceptPostRequest aps username data w)
           = Inl (BadRequestException (Some (''Invalid activity type '' @ pl_type data)))"
    using t c by (simp add: apUser_acceptPostRequest_def bind_io_def user_found [OF u] throw_io_def)
  have 2: "fst (apUser_acceptPostRequest aps username (data\<lparr>pl_type := ''Update''\<rparr>) w)
           = Inl NotImplementedException"
    using c by (simp add: apUser_acceptPostRequest_def bind_io_def user_found [OF u] throw_io_def)
  have 3: "apGroup_acceptPostRequest deliver groupname data w
           = (Inl (BadRequestException (Some (''Invalid activity type '' @ pl_type data))), w)"
    using t by (simp add: apGroup_acceptPostRequest_def bind_io_def group_found [OF g])
  have 4: "apGroup_acceptPostRequest deliver groupname (data\<lparr>pl_type := ''Update''\<rparr>) w
           = (Inl ImATeapotException, w)"
    by (simp add: apGroup_acceptPostRequest_def bind_io_def group_found [OF g])
  have 5: "handleIncoming deliver groupname data w = (Inl NotImplementedException, w)"
    using t by (simp add: handleIncoming_def bind_io_def group_found [OF g] Let_def)
  have 6: "handleIncoming deliver groupname (data\<lparr>pl_type := ''Update''\<rparr>) w
           = (Inl NotImplementedException, w)"
    by (simp add: handleIncoming_def bind_io_def group_found [OF g] Let_def)
  have 7: "suffix (pl_type data) (''Invalid activity type '' @ pl_type data)"
    by (rule suffix_appendI) simp
  from 1 2 3 4 5 6 7 show ?thesis by blast
qed

lemma ex_alice_found:
  "find (\<lambda>u. u_name u = ''alice'' \<and> u_server u = local_server ex_world) (users ex_world) = Some ex_alice"
  by (simp add: ex_world_def ex_user_def ex_alice_def ex_local_def ex_remote_def)

lemma ex_group_found:
  "find (\<lambda>g. g_name g = ''g'' \<and> g_server g = local_server ex_world) (groups ex_world) = Some ex_group"
  by (simp add: ex_world_def ex_group_def)

theorem dispatch_unsupported_type_witness:
  "fst (apUser_acceptPostRequest ex_aps ''alice'' (ex_activity ''Foo'' ''u4'') ex_world)
           = Inl (BadRequestException (Some ''Invalid activity type Foo''))
   \<and> fst (apUser_acceptPostRequest ex_aps ''alice'' (ex_activity ''Update'' ''u4'') ex_world)
           = Inl NotImplementedException
   \<and> apGroup_acceptPostRequest (\<lambda>a t. True) ''g'' (ex_activity ''Foo'' ''u4'') ex_world
           = (Inl (BadRequestException (Some ''Invalid activity type Foo'')), ex_world)
   \<and> apGroup_acceptPostRequest (\<lambda>a t. True) ''g'' (ex_activity ''Update'' ''u4'') ex_world
           = (Inl ImATeapotException, ex_world)
   \<and> handleIncoming (\<lambda>a t. True) ''g'' (ex_activity ''Foo'' ''u4'') ex_world
           = (Inl NotImplementedException, ex_world)
   \<and> handleIncoming (\<lambda>a t. True) ''g'' (ex_activity ''Update'' ''u4'') ex_world
           = (Inl NotImplementedException, ex_world)"
proof -
  have c: "pl_content (ex_activity ''Foo'' ''u4'') = None"
    by (simp add: ex_activity_def)
  have t: "pl_type (ex_activity ''Foo'' ''u4'') \<notin> set [''Create'', ''Delete'', ''Follow'', ''Accept'',
             ''Reject'', ''Like'', ''Update'', ''Add'', ''Remove'', ''Block'', ''Undo'']"
    by (simp add: ex_activity_def)
  have e: "(ex_activity ''Foo'' ''u4'')\<lparr>pl_type := ''Update''\<rparr> = ex_activity ''Update'' ''u4''"
    by (simp add: ex_activity_def)
  have p: "pl_type (ex_activity ''Foo'' ''u4'') = ''Foo''"
    by (simp add: ex_activity_def)
  show ?thesis
    using dispatch_unsupported_type [OF ex_alice_found ex_group_found c t, of ex_aps "\<lambda>a t. True"]
    unfolding e p by simp
qed

text \<open>
  The claim C4 as stated fails at the group's entry points: the group outbox answers
  Update with \<open>ImATeapot\<close>, the group inbox answers the unknown type Foo with
  \<open>NotImplemented\<close>.
\<close>

theorem dispatch_counterexample:
  "fst (apGroup_acceptPostRequest (\<lambda>a t. True) ''g'' (ex_activity ''Update'' ''u4'') ex_world)
      = Inl ImATeapotException
   \<and> fst (apGroup_acceptPostRequest (\<lambda>a t. True) ''g'' (ex_activity ''Update'' ''u4'') ex_world)
      \<noteq> Inl NotImplementedException
   \<and> fst (handleIncoming (\<lambda>a t. True) ''g'' (ex_activity ''Foo'' ''u4'') ex_world)
      = Inl NotImplementedException
   \<and> fst (handleIncoming (\<lambda>a t. True) ''g'' (ex_activity ''Foo'' ''u4'') ex_world)
      \<noteq> Inl (BadRequestException (Some ''Invalid activity type Foo''))"
proof -
  have a: "apGroup_acceptPostRequest (\<lambda>a t. True) ''g'' (ex_activity ''Update'' ''u4'') ex_world
           = (Inl ImATeapotException, ex_world)"
    by (simp add: apGroup_acceptPostRequest_def bind_io_def group_found [OF ex_group_found]
        ex_activity_def)
  have b: "handleIncoming (\<lambda>a t. True) ''g'' (ex_activity ''Foo'' ''u4'') ex_world
           = (Inl NotImplementedException, ex_world)"
    by (simp add: handleIncoming_def bind_io_def group_found [OF ex_group_found]
        ex_activity_def Let_def)
  show ?thesis by (simp add: a b)
qed

subsection \<open>Follower fan-out\<close>

lemma map_filter_zip_fst:
  "length ys = length xs \<Longrightarrow>
   map (f \<circ> fst) (filter (P \<circ> fst) (zip xs ys)) = map f (filter P xs)"
  by (induction xs ys rule: list_induct2') auto

lemma load_users_uris:
  "map u_uri (filter (\<lambda>f. u_uri f \<noteq> x) (fst (load_users us w)))
     = map u_uri (filter (\<lambda>f. u_uri f \<noteq> x) us)"
proof -
  let ?is = "[next_obj w ..< next_obj w + length us]"
  let ?h = "\<lambda>(u, i). u\<lparr>u_obj := i, liked := None\<rparr>"
  have 1: "(u_uri \<circ> ?h) = (u_uri \<circ> fst)" by (auto simp: fun_eq_iff)
  have 2: "((\<lambda>f. u_uri f \<noteq> x) \<circ> ?h) = ((\<lambda>f. u_uri f \<noteq> x) \<circ> fst)" by (auto simp: fun_eq_iff)
  have "map u_uri (filter (\<lambda>f. u_uri f \<noteq> x) (map ?h (zip us ?is)))
          = map (u_uri \<circ> ?h) (filter ((\<lambda>f. u_uri f \<noteq> x) \<circ> ?h) (zip us ?is))"
    by (simp add: filter_map)
  also have "\<dots> = map (u_uri \<circ> fst) (filter ((\<lambda>f. u_uri f \<noteq> x) \<circ> fst) (zip us ?is))"
    unfolding 1 2 ..
  also have "\<dots> = map u_uri (filter (\<lambda>f. u_uri f \<noteq> x) us)"
    by (rule map_filter_zip_fst) simp
  finally show ?thesis by (simp add: load_users_def)
qed

text \<open>
  C3, as the code has it. For every activity with a source user and every group that is
  stored, \<open>deliverToFollowers\<close> returns the activity and calls the delivery service once,
  with exactly the \<open>uri\<close> fields (the actor URIs) of the group's followers whose \<open>uri\<close>
  differs from the \<open>uri\<close> of the activity's source user, in the order of the followers.
\<close>

theorem deliverToFollowers_targets:
  assumes g: "find (\<lambda>g. g_id g = g_id grp) (groups w) = Some g"
    and s: "sourceUser act = Some src"
  shows "fst (deliverToFollowers deliver act grp w) = Inr act
       \<and> deliveries (snd (deliverToFollowers deliver act grp w))
           = deliveries w @ [(act, map u_uri (filter (\<lambda>f. u_uri f \<noteq> u_uri src)
                                                (the_list (followingUsers g))))]"
proof -
  obtain us w1 where l: "load_users (the_list (followingUsers g)) w = (us, w1)"
    by (cases "load_users (the_list (followingUsers g)) w")
  have d: "deliveries w1 = deliveries w"
    using l by (auto simp: load_users_def)
  have u: "map u_uri (filter (\<lambda>f. u_uri f \<noteq> u_uri src) us)
            = map u_uri (filter (\<lambda>f. u_uri f \<noteq> u_uri src) (the_list (followingUsers g)))"
    using load_users_uris [of "u_uri src" "the_list (followingUsers g)" w] l by simp
  show ?thesis
    using g s l d u
    by (simp add: deliverToFollowers_def groupService_getFollowers_def
        groupRepository_findOne_followingUsers_def deliverTo_def)
qed

theorem deliverToFollowers_targets_witness:
  "fst (deliverToFollowers (\<lambda>a t. True) ex_create ex_group ex_world) = Inr ex_create
   \<and> deliveries (snd (deliverToFollowers (\<lambda>a t. True) ex_create ex_group ex_world))
       = [(ex_create, [Some ''https://remote.example/user/u1'',
                       Some ''https://remote.example/user/u3''])]"
proof -
  have g: "find (\<lambda>g. g_id g = g_id ex_group) (groups ex_world) = Some ex_group"
    by (simp add: ex_world_def)
  have s: "sourceUser ex_create = Some (ex_user 2 ''u2'')"
    by (simp add: ex_create_def)
  have t: "map u_uri (filter (\<lambda>f. u_uri f \<noteq> u_uri (ex_user 2 ''u2''))
                        (the_list (followingUsers ex_group)))
           = [Some ''https://remote.example/user/u1'', Some ''https://remote.example/user/u3'']"
    by (simp add: ex_group_def ex_user_def the_list_def)
  have d: "deliveries ex_world = []"
    by (simp add: ex_world_def)
  show ?thesis
    using deliverToFollowers_targets [OF g s, of "\<lambda>a t. True"] by (simp add: t d)
qed

text \<open>
  The claim C3 as stated fails: with followers u1, u2, u3 and an activity sourced by u2
  the target list is the actor URIs of u1 and u3, not their inbox URIs (the \<open>inbox\<close> of
  \<open>createActor\<close>).
\<close>

theorem deliverToFollowers_counterexample:
  "snd (last (deliveries (snd (deliverToFollowers (\<lambda>a t. True) ex_create ex_group ex_world))))
     = [Some ''https://remote.example/user/u1'', Some ''https://remote.example/user/u3'']
   \<and> map (\<lambda>u. Some (ua_inbox (createActor (\<lambda>c. []) ex_ap u))) [ex_user 1 ''u1'', ex_user 3 ''u3'']
     = [Some ''https://remote.example/user/u1/inbox/'', Some ''https://remote.example/user/u3/inbox/'']
   \<and> snd (last (deliveries (snd (deliverToFollowers (\<lambda>a t. True) ex_create ex_group ex_world))))
     \<noteq> map (\<lambda>u. Some (ua_inbox (createActor (\<lambda>c. []) ex_ap u))) [ex_user 1 ''u1'', ex_user 3 ''u3'']"
proof -
  have a: "deliveries (snd (deliverToFollowers (\<lambda>a t. True) ex_create ex_group ex_world))
       = [(ex_create, [Some ''https://remote.example/user/u1'',
                       Some ''https://remote.example/user/u3''])]"
    by (simp add: deliverToFollowers_def groupService_getFollowers_def
        groupRepository_findOne_followingUsers_def deliverTo_def load_users_def the_list_def
        ex_world_def ex_group_def ex_create_def ex_user_def upt_rec)
  have b: "map (\<lambda>u. Some (ua_inbox (createActor (\<lambda>c. []) ex_ap u))) [ex_user 1 ''u1'', ex_user 3 ''u3'']
     = [Some ''https://remote.example/user/u1/inbox/'', Some ''https://remote.example/user/u3/inbox/'']"
    by (simp add: createActor_def idForUser_def truthy_def ex_user_def ex_ap_def)
  show ?thesis unfolding a b by simp
qed

text \<open>
  \<open>deliverToFollowers\<close> has no path that ends in \<open>InternalServerErrorException\<close>.
\<close>

lemma deliverToFollowers_never_InternalServerError:
  "fst (deliverToFollowers deliver act grp w) \<noteq> Inl (InternalServerErrorException e)"
  by (auto simp: deliverToFollowers_def deliverTo_def split: prod.splits option.splits if_splits)

text \<open>
  C8, the code at a failing delivery. Every delivery attempt fails: the promise of
  \<open>deliverTo\<close> is rejected, and still \<open>deliverToFollowers\<close> and the inbox handler
  that called it return the activity and no \<open>InternalServerErrorException\<close>. The
  activity saved before the fan-out stays saved.
\<close>

theorem fanout_failure_not_surfaced:
  "fst (deliverTo (\<lambda>a t. False) ex_create
          [Some ''https://remote.example/user/u1'', Some ''https://remote.example/user/u3''] ex_world)
     = Rejected (DeliveryError [Some ''https://remote.example/user/u1'',
                                Some ''https://remote.example/user/u3''])
   \<and> fst (deliverToFollowers (\<lambda>a t. False) ex_create ex_group ex_world) = Inr ex_create
   \<and> fst (handleIncoming (\<lambda>a t. False) ''g'' (ex_activity ''Create'' ''u2'') ex_world_known)
     = Inr (RetActivity (ex_create\<lparr>
         destinationGroups := Some [ex_group\<lparr>followingUsers := None\<rparr>],
         activityObject := (ex_activity ''Create'' ''u2'')\<lparr>pl_audience :=
            AudienceArray [''https://themis.example/group/g/followers/'']\<rparr>\<rparr>))
   \<and> map a_uri (activities (snd (handleIncoming (\<lambda>a t. False) ''g''
                     (ex_activity ''Create'' ''u2'') ex_world_known)))
     = [Some ''https://remote.example/activity/u2'']
   \<and> map snd (deliveries (snd (handleIncoming (\<lambda>a t. False) ''g''
                     (ex_activity ''Create'' ''u2'') ex_world_known)))
     = [[Some ''https://remote.example/user/u1'', Some ''https://remote.example/user/u3'']]"
  by (simp add: handleIncoming_def bind_io_def return_io_def groupService_findLocalByName_def
        activityService_findByUri_def activityService_save_def merge_destinations_def
        add_destination_def truthy_def Let_def
        deliverToFollowers_def groupService_getFollowers_def
        groupRepository_findOne_followingUsers_def deliverTo_def load_users_def the_list_def
        ex_world_known_def ex_world_def ex_group_def ex_create_def ex_user_def ex_activity_def
        ex_local_def ex_remote_def upt_rec)

subsection \<open>Likes\<close>

lemma find_by_key:
  "distinct (map key xs) \<Longrightarrow> x \<in> set xs \<Longrightarrow> find (\<lambda>y. key y = key x) xs = Some x"
  by (induction xs) (auto simp: rev_image_eqI)

lemma find_Some_mem: "find P xs = Some x \<Longrightarrow> x \<in> set xs \<and> P x"
  by (induction xs) (auto split: if_splits)

lemma map_key_upsert_by:
  "key x \<in> key ` set xs \<Longrightarrow> map key (upsert_by key x xs) = map key xs"
  by (induction xs) auto

lemma find_upsert_by_key: "find (\<lambda>y. key y = key x) (upsert_by key x xs) = Some x"
  by (induction xs) auto

lemma find_upsert_by_pred:
  "distinct (map key xs) \<Longrightarrow> find P xs = Some x \<Longrightarrow> key r = key x \<Longrightarrow> P r \<Longrightarrow>
   find P (upsert_by key r xs) = Some r"
proof (induction xs)
  case Nil
  then show ?case by simp
next
  case (Cons y ys)
  show ?case
  proof (cases "P y")
    case True
    with Cons.prems have "x = y" by simp
    with Cons.prems True show ?thesis by simp
  next
    case False
    with Cons.prems have f: "find P ys = Some x" by simp
    then have "x \<in> set ys" by (rule find_Some_mem [THEN conjunct1])
    with Cons.prems have "key y \<noteq> key x" by (auto simp: rev_image_eqI)
    with Cons False f show ?thesis by simp
  qed
qed

text \<open>The rows of a join table.\<close>

lemma distinct_foldl_insert_row:
  "distinct (map key acc) \<Longrightarrow> distinct (map key (foldl (insert_row key) acc xs))"
  by (induction xs arbitrary: acc) (auto simp: insert_row_def)

lemma distinct_join_rows: "distinct (map key (join_rows key xs))"
  by (simp add: join_rows_def distinct_foldl_insert_row)

lemma keys_foldl_insert_row:
  "key ` set (foldl (insert_row key) acc xs) = key ` set acc \<union> key ` set xs"
  by (induction xs arbitrary: acc) (auto simp: insert_row_def)

lemma keys_join_rows: "key ` set (join_rows key xs) = key ` set xs"
  by (simp add: join_rows_def keys_foldl_insert_row)

lemma foldl_insert_row_distinct:
  "distinct (map key (acc @ xs)) \<Longrightarrow> foldl (insert_row key) acc xs = acc @ xs"
proof (induction xs arbitrary: acc)
  case Nil
  then show ?case by simp
next
  case (Cons x xs)
  from Cons.prems have "key x \<notin> set (map key acc)" by auto
  then have "insert_row key acc x = acc @ [x]" by (simp add: insert_row_def)
  moreover from Cons.prems have "distinct (map key ((acc @ [x]) @ xs))" by simp
  ultimately show ?case using Cons.IH [of "acc @ [x]"] by simp
qed

lemma join_rows_distinct: "distinct (map key xs) \<Longrightarrow> join_rows key xs = xs"
  using foldl_insert_row_distinct [of key "[]" xs] by (simp add: join_rows_def)

lemma join_rows_snoc: "join_rows key (xs @ [x]) = insert_row key (join_rows key xs) x"
  by (simp add: join_rows_def)

text \<open>Saving a relation that holds a stored entity once more changes nothing.\<close>

lemma join_rows_again:
  "join_rows key (join_rows key (xs @ [x]) @ [x]) = join_rows key (xs @ [x])"
proof -
  let ?s = "join_rows key (xs @ [x])"
  have "join_rows key ?s = ?s"
    by (rule join_rows_distinct) (rule distinct_join_rows)
  moreover have "key x \<in> set (map key ?s)"
    using keys_join_rows [of key "xs @ [x]"] by auto
  ultimately show ?thesis
    by (simp add: join_rows_snoc [of key ?s x] insert_row_def)
qed

lemma filter_key_once:
  "distinct (map key xs) \<Longrightarrow> key x \<in> key ` set xs \<Longrightarrow>
   length (filter (\<lambda>y. key y = key x) xs) = 1"
proof (induction xs)
  case Nil
  then show ?case by simp
next
  case (Cons y ys)
  show ?case
  proof (cases "key y = key x")
    case True
    with Cons.prems have "filter (\<lambda>z. key z = key x) ys = []"
      by (auto simp: filter_empty_conv rev_image_eqI)
    with True show ?thesis by simp
  next
    case False
    with Cons show ?thesis by auto
  qed
qed

lemma join_rows_once:
  "length (filter (\<lambda>y. key y = key x) (join_rows key (xs @ [x]))) = 1"
  by (rule filter_key_once) (simp_all add: distinct_join_rows keys_join_rows)

lemma apUser_Like_branch:
  "pl_type data = ''Like'' \<Longrightarrow> pl_content data = None \<Longrightarrow>
   apUser_acceptPostRequest aps username data =
     bind_io (userService_findLocalByName username) (\<lambda>usr.
       bind_io (getPostEntityByUri (pl_object data)) (\<lambda>likedPost.
         bind_io (likePost usr likedPost) (\<lambda>likingUser.
           save_and_return (activity_entity likingUser likedPost data))))"
  by (simp add: apUser_acceptPostRequest_def)

lemma save_and_return_frame:
  "fst (save_and_return (activity_entity r p d) wx) = Inr d
   \<and> users (snd (save_and_return (activity_entity r p d) wx)) = users wx
   \<and> posts (snd (save_and_return (activity_entity r p d) wx)) = posts wx
   \<and> local_server (snd (save_and_return (activity_entity r p d) wx)) = local_server wx
   \<and> targetUser (last (activities (snd (save_and_return (activity_entity r p d) wx)))) = Some r"
  by (simp add: save_and_return_def activity_entity_def activityService_save_def Let_def
        split: option.split)

lemma addLike_found:
  "find (\<lambda>y. u_id y = u_id usr) (users wx) = Some u0 \<Longrightarrow>
   addLike usr pst wx =
     (Inr (u0\<lparr>u_obj := next_obj wx, liked := Some (the_list (liked u0) @ [pst])\<rparr>),
      userRepository_save (u0\<lparr>u_obj := next_obj wx, liked := Some (the_list (liked u0) @ [pst])\<rparr>)
        (wx\<lparr>next_obj := Suc (next_obj wx)\<rparr>))"
  by (simp add: addLike_def getLikes_def userRepository_findOne_liked_def Let_def)

text \<open>One Like dispatched from the user outbox.\<close>

lemma like_step:
  assumes ids: "distinct (map u_id (users w))"
    and u: "find (\<lambda>u. u_name u = username \<and> u_server u = local_server w) (users w) = Some u0"
    and p: "find (\<lambda>p. post_uri p = obj) (posts w) = Some pst"
    and d: "pl_type data = ''Like''" "pl_content data = None" "pl_object data = Some obj"
  shows "fst (apUser_acceptPostRequest aps username data w) = Inr data
    \<and> users (snd (apUser_acceptPostRequest aps username data w))
           = upsert_by u_id (u0\<lparr>u_obj := Suc (next_obj w),
                liked := Some (join_rows post_id (the_list (liked u0) @ [pst]))\<rparr>) (users w)
    \<and> posts (snd (apUser_acceptPostRequest aps username data w)) = posts w
    \<and> local_server (snd (apUser_acceptPostRequest aps username data w)) = local_server w
    \<and> targetUser (last (activities (snd (apUser_acceptPostRequest aps username data w))))
           = Some (u0\<lparr>u_obj := Suc (next_obj w),
                       liked := Some (the_list (liked u0) @ [pst])\<rparr>)"
proof -
  let ?usr = "u0\<lparr>u_obj := next_obj w, liked := None\<rparr>"
  let ?w0 = "w\<lparr>next_obj := Suc (next_obj w)\<rparr>"
  let ?r = "u0\<lparr>u_obj := Suc (next_obj w), liked := Some (the_list (liked u0) @ [pst])\<rparr>"
  let ?w1 = "userRepository_save ?r (w\<lparr>next_obj := Suc (Suc (next_obj w))\<rparr>)"
  have m: "u0 \<in> set (users w)"
    using u by (rule find_Some_mem [THEN conjunct1])
  have f: "find (\<lambda>y. u_id y = u_id ?usr) (users ?w0) = Some u0"
    using find_by_key [OF ids m] by simp
  have l: "userService_findLocalByName username w = (Inr ?usr, ?w0)"
    using u by (simp add: userService_findLocalByName_def)
  have g: "getPostEntityByUri (pl_object data) ?w0 = (Inr pst, ?w0)"
    using d p by (simp add: getPostEntityByUri_def postService_findByUri_def)
  have a: "likePost ?usr pst ?w0 = (Inr ?r, ?w1)"
    unfolding likePost_def using addLike_found [OF f, of pst] by simp
  have e: "apUser_acceptPostRequest aps username data w
             = save_and_return (activity_entity ?r pst data) ?w1"
    unfolding apUser_Like_branch [OF d(1) d(2)] by (simp add: bind_io_def l g a)
  have k: "users ?w1 = upsert_by u_id (u0\<lparr>u_obj := Suc (next_obj w),
                liked := Some (join_rows post_id (the_list (liked u0) @ [pst]))\<rparr>) (users w)"
    "posts ?w1 = posts w" "local_server ?w1 = local_server w"
    by (simp_all add: userRepository_save_def)
  show ?thesis
    unfolding e using save_and_return_frame [of ?r pst data ?w1] by (simp only: k)
qed

text \<open>
  C10, as the code has it. \<open>addLike\<close> appends the post to the liked array it loaded and
  hands the user to \<open>save\<close>, with no test whether the post is there; nothing else on the
  Like path tests it either. When a local user exists (user ids being unique) and the
  object of a Like resolves to a stored post, dispatching that Like from the user's outbox
  succeeds, and so does dispatching it a second time. The user entity the second dispatch
  saves and records as the target user of its activity holds the post twice. The persisted
  liked relation keeps one row per post: after the first and after the second dispatch it
  holds the post once.
\<close>

theorem like_twice_one_row:
  assumes ids: "distinct (map u_id (users w))"
    and u: "find (\<lambda>u. u_name u = username \<and> u_server u = local_server w) (users w) = Some u0"
    and p: "find (\<lambda>p. post_uri p = obj) (posts w) = Some pst"
    and d: "pl_type data = ''Like''" "pl_content data = None" "pl_object data = Some obj"
  shows "fst (apUser_acceptPostRequest aps username data w) = Inr data
       \<and> map_option liked (targetUser (last (activities
            (snd (apUser_acceptPostRequest aps username data w)))))
          = Some (Some (the_list (liked u0) @ [pst]))
       \<and> map_option liked (find (\<lambda>u. u_id u = u_id u0)
            (users (snd (apUser_acceptPostRequest aps username data w))))
          = Some (Some (join_rows post_id (the_list (liked u0) @ [pst])))
       \<and> fst (apUser_acceptPostRequest aps username data
                 (snd (apUser_acceptPostRequest aps username data w))) = Inr data
       \<and> map_option liked (targetUser (last (activities
            (snd (apUser_acceptPostRequest aps username data
                   (snd (apUser_acceptPostRequest aps username data w)))))))
          = Some (Some (join_rows post_id (the_list (liked u0) @ [pst]) @ [pst]))
       \<and> map_option liked (find (\<lambda>u. u_id u = u_id u0)
            (users (snd (apUser_acceptPostRequest aps username data
                           (snd (apUser_acceptPostRequest aps username data w))))))
          = Some (Some (join_rows post_id (the_list (liked u0) @ [pst])))
       \<and> length (filter (\<lambda>q. post_id q = post_id pst)
                   (join_rows post_id (the_list (liked u0) @ [pst]))) = 1"
proof -
  let ?w1 = "snd (apUser_acceptPostRequest aps username data w)"
  let ?S = "join_rows post_id (the_list (liked u0) @ [pst])"
  let ?r = "u0\<lparr>u_obj := Suc (next_obj w), liked := Some ?S\<rparr>"
  have s1: "fst (apUser_acceptPostRequest aps username data w) = Inr data"
    "users ?w1 = upsert_by u_id ?r (users w)" "posts ?w1 = posts w"
    "local_server ?w1 = local_server w"
    "targetUser (last (activities ?w1))
       = Some (u0\<lparr>u_obj := Suc (next_obj w), liked := Some (the_list (liked u0) @ [pst])\<rparr>)"
    using like_step [OF ids u p d, of aps] by simp_all
  have in_keys: "u_id ?r \<in> u_id ` set (users w)"
    using u by (auto dest: find_Some_mem)
  have ids1: "distinct (map u_id (users ?w1))"
    using ids in_keys by (simp add: s1(2) map_key_upsert_by)
  have pr: "u_name ?r = username \<and> u_server ?r = local_server w"
    using find_Some_mem [OF u] by simp
  have u1: "find (\<lambda>u. u_name u = username \<and> u_server u = local_server ?w1) (users ?w1) = Some ?r"
    using find_upsert_by_pred [OF ids u, of ?r] pr s1 by simp
  have p1: "find (\<lambda>p. post_uri p = obj) (posts ?w1) = Some pst"
    using p by (simp add: s1(3))
  let ?w2 = "snd (apUser_acceptPostRequest aps username data ?w1)"
  let ?r2 = "?r\<lparr>u_obj := Suc (next_obj ?w1),
                 liked := Some (join_rows post_id (the_list (liked ?r) @ [pst]))\<rparr>"
  have s2: "fst (apUser_acceptPostRequest aps username data ?w1) = Inr data"
    "users ?w2 = upsert_by u_id ?r2 (users ?w1)"
    "targetUser (last (activities ?w2))
       = Some (?r\<lparr>u_obj := Suc (next_obj ?w1), liked := Some (the_list (liked ?r) @ [pst])\<rparr>)"
    using like_step [OF ids1 u1 p1 d, of aps] by simp_all
  have again: "join_rows post_id (the_list (liked ?r) @ [pst]) = ?S"
    using join_rows_again [of post_id "the_list (liked u0)" pst] by (simp add: the_list_def)
  have a: "map_option liked (find (\<lambda>u. u_id u = u_id u0) (users ?w1)) = Some (Some ?S)"
    unfolding s1(2) using find_upsert_by_key [of u_id ?r "users w"] by simp
  have b: "map_option liked (find (\<lambda>u. u_id u = u_id u0) (users ?w2)) = Some (Some ?S)"
    unfolding s2(2) using find_upsert_by_key [of u_id ?r2 "users ?w1"] again by simp
  have c: "map_option liked (targetUser (last (activities ?w1)))
             = Some (Some (the_list (liked u0) @ [pst]))"
    by (simp add: s1(5))
  have e: "map_option liked (targetUser (last (activities ?w2))) = Some (Some (?S @ [pst]))"
    by (simp add: s2(3) the_list_def)
  have f: "length (filter (\<lambda>q. post_id q = post_id pst) ?S) = 1"
    by (rule join_rows_once)
  show ?thesis using s1(1) s2(1) a b c e f by blast
qed

theorem like_twice_one_row_witness:
  "fst (apUser_acceptPostRequest ex_aps ''alice'' ex_like ex_world) = Inr ex_like
   \<and> fst (apUser_acceptPostRequest ex_aps ''alice'' ex_like
            (snd (apUser_acceptPostRequest ex_aps ''alice'' ex_like ex_world))) = Inr ex_like
   \<and> map_option liked (targetUser (last (activities
        (snd (apUser_acceptPostRequest ex_aps ''alice'' ex_like
               (snd (apUser_acceptPostRequest ex_aps ''alice'' ex_like ex_world)))))))
      = Some (Some [ex_post, ex_post])
   \<and> map_option liked (find (\<lambda>u. u_id u = 5)
        (users (snd (apUser_acceptPostRequest ex_aps ''alice'' ex_like
                       (snd (apUser_acceptPostRequest ex_aps ''alice'' ex_like ex_world))))))
      = Some (Some [ex_post])"
proof -
  have ids: "distinct (map u_id (users ex_world))"
    by (simp add: ex_world_def ex_user_def ex_alice_def)
  have u: "find (\<lambda>u. u_name u = ''alice'' \<and> u_server u = local_server ex_world) (users ex_world)
             = Some ex_alice"
    by (simp add: ex_world_def ex_user_def ex_alice_def ex_local_def ex_remote_def)
  have p: "find (\<lambda>p. post_uri p = ''https://themis.example/post/p1'') (posts ex_world) = Some ex_post"
    by (simp add: ex_world_def ex_post_def)
  have d: "pl_type ex_like = ''Like''" "pl_content ex_like = None"
    "pl_object ex_like = Some ''https://themis.example/post/p1''"
    by (simp_all add: ex_like_def)
  have i: "u_id ex_alice = 5" "the_list (liked ex_alice) = []"
    "join_rows post_id [ex_post] = [ex_post]"
    by (simp_all add: ex_alice_def the_list_def join_rows_def insert_row_def)
  show ?thesis
    using like_twice_one_row [OF ids u p d, of ex_aps] by (simp add: i)
qed

text \<open>
  The claim C10 as stated fails: after two Likes of the same post by the same user the
  persisted liked relation holds one entry for the post, not two.
\<close>

theorem like_twice_counterexample:
  "map_option liked (find (\<lambda>u. u_id u = 5)
        (users (snd (apUser_acceptPostRequest ex_aps ''alice'' ex_like
                       (snd (apUser_acceptPostRequest ex_aps ''alice'' ex_like ex_world))))))
      = Some (Some [ex_post])
   \<and> map_option liked (find (\<lambda>u. u_id u = 5)
        (users (snd (apUser_acceptPostRequest ex_aps ''alice'' ex_like
                       (snd (apUser_acceptPostRequest ex_aps ''alice'' ex_like ex_world))))))
      \<noteq> Some (Some [ex_post, ex_post])"
  by code_simp

subsection \<open>Follow requests\<close>

lemma groupService_findLocalByName_snd: "snd (groupService_findLocalByName n w) = w"
  by (simp add: groupService_findLocalByName_def split: option.split)

lemma map_snd_zip_objs:
  "length ys = length xs \<Longrightarrow>
   map (u_obj \<circ> (\<lambda>(u, i). u\<lparr>u_obj := i, liked := None\<rparr>)) (zip xs ys) = ys"
  by (induction xs ys rule: list_induct2') auto

lemma load_users_objs:
  "map u_obj (fst (load_users us w)) = [next_obj w ..< next_obj w + length us]"
  using map_snd_zip_objs [of "[next_obj w ..< next_obj w + length us]" us]
  by (simp add: load_users_def)

text \<open>
  A user object that exists when \<open>addFollower\<close> is called is never an element of the
  follower array the call loads: the branch that returns \<open>false\<close> is dead.
\<close>

lemma addFollower_never_false:
  assumes "u_obj usr < next_obj w"
  shows "fst (addFollower grp usr w) \<noteq> Inr False"
proof (cases "find (\<lambda>g. g_id g = g_id grp) (groups w)")
  case None
  then show ?thesis
    by (simp add: addFollower_def groupRepository_findOne_followingUsers_def)
next
  case (Some g)
  obtain us w1 where l: "load_users (the_list (followingUsers g)) w = (us, w1)"
    by (cases "load_users (the_list (followingUsers g)) w")
  have "map u_obj us = [next_obj w ..< next_obj w + length (the_list (followingUsers g))]"
    using load_users_objs [of "the_list (followingUsers g)" w] l by simp
  then have "u_obj usr \<notin> set (map u_obj us)"
    using assms by simp
  then show ?thesis
    using Some l by (simp add: addFollower_def groupRepository_findOne_followingUsers_def)
qed

lemma activityService_save_next_obj: "next_obj (snd (activityService_save ent w)) = next_obj w"
  by (simp add: activityService_save_def Let_def split: option.split)

lemma userService_findByUri_obj:
  "userService_findByUri x w = (Inr usr, w1) \<Longrightarrow> u_obj usr < next_obj w1"
  by (auto simp: userService_findByUri_def split: option.splits)

lemma fst_bind_return_payload:
  "fst (bind_io m (\<lambda>r. return_io (RetPayload r)) w) \<noteq> Inr (RetBool b)"
  by (simp add: bind_io_def return_io_def split: prod.split sum.split)

lemma fst_bind_return_activity:
  "fst (bind_io m (\<lambda>r. return_io (RetActivity r)) w) \<noteq> Inr (RetBool b)"
  by (simp add: bind_io_def return_io_def split: prod.split sum.split)

text \<open>The inbox handler never returns \<open>false\<close>.\<close>

lemma handleIncoming_never_false:
  "fst (handleIncoming deliver gn data w) \<noteq> Inr (RetBool False)"
proof (cases "groupService_findLocalByName gn w")
  case (Pair r w')
  then have w': "w' = w"
    using groupService_findLocalByName_snd [of gn w] by simp
  show ?thesis
  proof (cases r)
    case (Inl e)
    with Pair show ?thesis by (simp add: handleIncoming_def bind_io_def)
  next
    case (Inr grp)
    let ?ent0 = "case activityService_findByUri (pl_id data) w of
                   Some a \<Rightarrow> a | None \<Rightarrow> activityService_create data"
    let ?ent = "?ent0\<lparr>destinationGroups :=
                  (case destinationGroups ?ent0 of
                     Some gs \<Rightarrow> Some (gs @ [grp]) | None \<Rightarrow> Some [grp])\<rparr>"
    show ?thesis
    proof (cases "pl_type data = ''Follow''")
      case False
      with Pair w' Inr show ?thesis
        by (auto simp: handleIncoming_def bind_io_def [of "groupService_findLocalByName gn"]
            Let_def fst_bind_return_activity
            split: audience.split option.split prod.split)
    next
      case True
      obtain r1 w1 where fu: "userService_findByUri (pl_actor data) w = (r1, w1)"
        by (cases "userService_findByUri (pl_actor data) w")
      show ?thesis
      proof (cases r1)
        case (Inl e)
        then show ?thesis
          using Pair w' Inr True fu by (simp add: handleIncoming_def bind_io_def Let_def)
      next
        case usr: (Inr usr)
        obtain saved w2 where sv: "activityService_save ?ent w1 = (saved, w2)"
          by (cases "activityService_save ?ent w1")
        have "next_obj w2 = next_obj w1"
          using activityService_save_next_obj [of ?ent w1] sv by simp
        then have "u_obj usr < next_obj w2"
          using userService_findByUri_obj fu usr by simp
        then have nf: "fst (addFollower grp usr w2) \<noteq> Inr False"
          by (rule addFollower_never_false)
        obtain r3 w3 where af: "addFollower grp usr w2 = (r3, w3)"
          by (cases "addFollower grp usr w2")
        let ?accept = "createAcceptActivity (g_uri grp) (pl_id data) (u_uri usr)"
        have h: "handleIncoming deliver gn data w =
                   (case r3 of
                      Inl e \<Rightarrow> (Inl e, w3)
                    | Inr result \<Rightarrow>
                        (if result
                         then bind_io (apGroup_acceptPostRequest deliver (g_name grp) ?accept)
                                (\<lambda>response. return_io (RetPayload response))
                         else return_io (RetBool result)) w3)"
          using Pair w' Inr True fu usr sv af
          by (cases r3) (simp_all add: handleIncoming_def bind_io_def Let_def)
        show ?thesis
        proof (cases r3)
          case (Inl e)
          with h show ?thesis by simp
        next
          case (Inr result)
          with nf af have "result" by simp
          with h Inr show ?thesis by (simp add: fst_bind_return_payload)
        qed
      qed
    qed
  qed
qed

text \<open>
  C2, the code at a repeated Follow. In \<open>ex_world_followed\<close> the user u4 follows the
  group already. The same Follow again does not return \<open>false\<close>: \<open>addFollower\<close> does not
  find u4 in the follower array, reports a change, and the handler synthesizes and delivers
  a second Accept. The stored follower relation gains no second row for u4.
\<close>

theorem follow_again_accepts_again:
  "map (map_option (map u_id) \<circ> followingUsers) (groups ex_world_followed) = [Some [1, 2, 3, 4]]
   \<and> fst (handleIncoming (\<lambda>a t. True) ''g'' (ex_activity ''Follow'' ''u4'') ex_world_followed)
     = Inr (RetPayload (ex_accept ''u4''))
   \<and> fst (handleIncoming (\<lambda>a t. True) ''g'' (ex_activity ''Follow'' ''u4'') ex_world_followed)
     \<noteq> Inr (RetBool False)
   \<and> map (map_option (map u_id) \<circ> followingUsers)
        (groups (snd (handleIncoming (\<lambda>a t. True) ''g'' (ex_activity ''Follow'' ''u4'')
                        ex_world_followed)))
      = [Some [1, 2, 3, 4]]
   \<and> map (\<lambda>(a, ts). (a_type a, ts))
        (deliveries (snd (handleIncoming (\<lambda>a t. True) ''g'' (ex_activity ''Follow'' ''u4'')
                            ex_world_followed)))
      = [(''Accept'', [Some ''https://remote.example/user/u4'']),
         (''Accept'', [Some ''https://remote.example/user/u4''])]"
  by code_simp

subsection \<open>Inbound activities are stored once\<close>

lemma dedup_step_frame: "activities w' = activities w \<Longrightarrow> dedup_step u w w'"
  by (simp add: dedup_step_def records_for_def)

lemma dedup_step_refl: "dedup_step u w w"
  by (simp add: dedup_step_frame)

lemma dedup_step_trans: "dedup_step u w w1 \<Longrightarrow> dedup_step u w1 w2 \<Longrightarrow> dedup_step u w w2"
  unfolding dedup_step_def by (intro conjI ballI) (linarith, blast)

lemma dedup_step_cong:
  "activities w0 = activities w \<Longrightarrow> activities w2 = activities w1 \<Longrightarrow>
   dedup_step u w w1 \<Longrightarrow> dedup_step u w0 w2"
  by (simp add: dedup_step_def records_for_def)

lemma distinct_foldl_add_destination:
  "distinct (map g_id acc) \<Longrightarrow> distinct (map g_id (foldl add_destination acc gs))"
  by (induction gs arbitrary: acc) (auto simp: add_destination_def)

lemma distinct_merge_destinations:
  "distinct (map g_id (the_list (merge_destinations xs ys)))"
  by (simp add: merge_destinations_def the_list_def distinct_foldl_add_destination)

lemma find_None_filter: "find P xs = None \<Longrightarrow> filter P xs = []"
  by (induction xs) (auto split: if_splits)

lemma find_Some_P: "find P xs = Some x \<Longrightarrow> P x"
  by (induction xs) (auto split: if_splits)

lemma filter_map_replace_same:
  "P m \<Longrightarrow> filter P (map (\<lambda>a. if P a then m else a) xs) = map (\<lambda>a. m) (filter P xs)"
  by (induction xs) auto

lemma filter_map_replace_other:
  "\<not> P m \<Longrightarrow> (\<And>a. Q a \<Longrightarrow> \<not> P a) \<Longrightarrow>
   filter P (map (\<lambda>a. if Q a then m else a) xs) = filter P xs"
  by (induction xs) auto

lemma save_dedup_step:
  assumes new: "a_uri ent = None \<Longrightarrow> pl_id (activityObject ent) = Some u \<Longrightarrow> records_for u w = []"
  shows "dedup_step u w (snd (activityService_save ent w))"
proof (cases "case a_uri ent of None \<Rightarrow> None
              | Some v \<Rightarrow> find (\<lambda>a. a_uri a = Some v) (activities w)")
  case (Some stored)
  then obtain v where v: "a_uri ent = Some v"
    by (cases "a_uri ent") auto
  let ?m = "ent\<lparr>destinationGroups :=
                 merge_destinations (destinationGroups stored) (destinationGroups ent)\<rparr>"
  have s: "activities (snd (activityService_save ent w))
             = map (\<lambda>a. if a_uri a = Some v then ?m else a) (activities w)"
    using Some v by (simp add: activityService_save_def Let_def)
  have dm: "distinct_destinations ?m"
    by (simp add: distinct_destinations_def distinct_merge_destinations)
  show ?thesis
  proof (cases "v = u")
    case True
    have "records_for u (snd (activityService_save ent w)) = map (\<lambda>a. ?m) (records_for u w)"
      unfolding records_for_def s True
      using filter_map_replace_same [of "\<lambda>a. a_uri a = Some u" ?m "activities w"] v True
      by simp
    then show ?thesis using dm by (auto simp: dedup_step_def)
  next
    case False
    have "records_for u (snd (activityService_save ent w)) = records_for u w"
      unfolding records_for_def s
      using filter_map_replace_other [of "\<lambda>a. a_uri a = Some u" ?m "\<lambda>a. a_uri a = Some v" "activities w"]
        v False by simp
    then show ?thesis by (simp add: dedup_step_def)
  qed
next
  case None
  let ?row = "ent\<lparr>a_uri := (case a_uri ent of Some v \<Rightarrow> Some v
                                | None \<Rightarrow> pl_id (activityObject ent)),
                    destinationGroups := merge_destinations None (destinationGroups ent)\<rparr>"
  have s: "activities (snd (activityService_save ent w)) = activities w @ [?row]"
    using None by (simp add: activityService_save_def Let_def)
  have dr: "distinct_destinations ?row"
    by (simp add: distinct_destinations_def distinct_merge_destinations)
  show ?thesis
  proof (cases "a_uri ?row = Some u")
    case True
    have "records_for u w = []"
    proof (cases "a_uri ent")
      case None
      with True new show ?thesis by simp
    next
      case (Some v)
      with True have "v = u" by simp
      with Some \<open>(case a_uri ent of None \<Rightarrow> None | Some v \<Rightarrow> find (\<lambda>a. a_uri a = Some v) (activities w)) = None\<close>
      show ?thesis by (simp add: records_for_def find_None_filter)
    qed
    then show ?thesis
      using True dr by (simp add: dedup_step_def records_for_def s)
  next
    case False
    then have "records_for u (snd (activityService_save ent w)) = records_for u w"
      by (simp add: records_for_def s)
    then show ?thesis by (simp add: dedup_step_def)
  qed
qed


lemma deliverTo_activities: "activities (snd (deliverTo deliver act ts w)) = activities w"
  by (simp add: deliverTo_def)

lemma load_users_activities: "activities (snd (load_users us w)) = activities w"
  by (simp add: load_users_def)

lemma findOne_followingUsers_activities:
  "activities (snd (groupRepository_findOne_followingUsers gid w)) = activities w"
  by (simp add: groupRepository_findOne_followingUsers_def load_users_def split: option.split)

lemma deliverToFollowers_activities:
  "activities (snd (deliverToFollowers deliver act grp w)) = activities w"
proof -
  obtain r w1 where l: "groupRepository_findOne_followingUsers (g_id grp) w = (r, w1)"
    by (cases "groupRepository_findOne_followingUsers (g_id grp) w")
  have "activities w1 = activities w"
    using findOne_followingUsers_activities [of "g_id grp" w] l by simp
  then show ?thesis
    by (simp add: deliverToFollowers_def groupService_getFollowers_def l deliverTo_def
        split: option.split prod.split)
qed

lemma addFollower_activities: "activities (snd (addFollower grp usr w)) = activities w"
proof -
  obtain r w1 where l: "groupRepository_findOne_followingUsers (g_id grp) w = (r, w1)"
    by (cases "groupRepository_findOne_followingUsers (g_id grp) w")
  have "activities w1 = activities w"
    using findOne_followingUsers_activities [of "g_id grp" w] l by simp
  then show ?thesis
    by (simp add: addFollower_def l groupRepository_save_def split: option.split)
qed

lemma userService_findByUri_activities:
  "activities (snd (userService_findByUri x w)) = activities w"
  by (simp add: userService_findByUri_def split: option.split)

text \<open>The group outbox, given an activity that carries no URI of its own.\<close>

lemma accept_dedup_step:
  assumes "pl_id acc = None"
  shows "dedup_step u w (snd (apGroup_acceptPostRequest deliver gn acc w))"
proof (cases "groupService_findLocalByName gn w")
  case (Pair r w')
  then have w': "w' = w"
    using groupService_findLocalByName_snd [of gn w] by simp
  show ?thesis
  proof (cases r)
    case (Inl e)
    with Pair w' show ?thesis
      by (simp add: apGroup_acceptPostRequest_def bind_io_def dedup_step_refl)
  next
    case (Inr grp)
    show ?thesis
    proof (cases "pl_type acc = ''Accept''")
      case False
      with Pair w' Inr show ?thesis
        by (simp add: apGroup_acceptPostRequest_def bind_io_def dedup_step_refl)
    next
      case True
      show ?thesis
      proof (cases "activityService_findByUri (pl_object acc) w")
        case None
        with Pair w' Inr True show ?thesis
          by (simp add: apGroup_acceptPostRequest_def bind_io_def dedup_step_refl)
      next
        case (Some request)
        let ?ent = "\<lparr>a_uri = None, a_type = pl_type acc, sourceUser = None,
                      sourceGroup = Some grp, targetUser = None, targetPost = None,
                      destinationGroups = None, destinationUsers = Some [sourceUser request],
                      activityObject = acc\<rparr>"
        obtain saved w1 where sv: "activityService_save ?ent w = (saved, w1)"
          by (cases "activityService_save ?ent w")
        have q: "dedup_step u w w1"
          using save_dedup_step [of ?ent u w] assms sv by simp
        obtain p w2 where dl: "deliverTo deliver saved [pl_target acc] w1 = (p, w2)"
          by (cases "deliverTo deliver saved [pl_target acc] w1")
        have a2: "activities w2 = activities w1"
          using deliverTo_activities [of deliver saved "[pl_target acc]" w1] dl by simp
        have "snd (apGroup_acceptPostRequest deliver gn acc w) = w2"
          using Pair w' Inr True Some sv dl
          by (simp add: apGroup_acceptPostRequest_def bind_io_def Let_def split: sum.split)
        then show ?thesis
          using dedup_step_cong [OF refl a2 q] by simp
      qed
    qed
  qed
qed


lemma snd_bind_return: "snd (bind_io m (\<lambda>a. return_io (f a)) w) = snd (m w)"
  by (simp add: bind_io_def return_io_def split: prod.split sum.split)

text \<open>One call of the inbox handler.\<close>

lemma handleIncoming_dedup_step:
  assumes id: "pl_id data = Some u"
  shows "dedup_step u w (snd (handleIncoming deliver gn data w))"
proof (cases "groupService_findLocalByName gn w")
  case (Pair r w')
  then have w': "w' = w"
    using groupService_findLocalByName_snd [of gn w] by simp
  show ?thesis
  proof (cases r)
    case (Inl e)
    with Pair w' show ?thesis
      by (simp add: handleIncoming_def bind_io_def dedup_step_refl)
  next
    case (Inr grp)
    let ?ent0 = "case activityService_findByUri (Some u) w of
                   Some a \<Rightarrow> a | None \<Rightarrow> activityService_create data"
    let ?ent = "?ent0\<lparr>destinationGroups :=
                  (case destinationGroups ?ent0 of
                     Some gs \<Rightarrow> Some (gs @ [grp]) | None \<Rightarrow> Some [grp])\<rparr>"
    have new: "records_for u w = []" if "a_uri ?ent = None"
    proof (cases "find (\<lambda>a. a_uri a = Some u) (activities w)")
      case None
      then show ?thesis by (simp add: records_for_def find_None_filter)
    next
      case (Some a)
      then have "a_uri a = Some u" by (rule find_Some_P)
      with Some that show ?thesis by (simp add: activityService_findByUri_def)
    qed
    show ?thesis
    proof (cases "pl_type data = ''Create''")
      case True
      show ?thesis
      proof (cases "truthy (a_uri ?ent) \<and> pl_audience data \<noteq> AudienceOther \<and> g_actor grp \<noteq> None")
        case False
        then have "snd (handleIncoming deliver gn data w) = w"
          using Pair w' Inr True id
          by (auto simp: handleIncoming_def bind_io_def Let_def split: audience.split option.split)
        then show ?thesis by (simp add: dedup_step_refl)
      next
        case ok: True
        then obtain ga where ga: "g_actor grp = Some ga" by auto
        let ?pushed = "?ent\<lparr>destinationGroups := Some (the_list (destinationGroups ?ent) @ [grp])\<rparr>"
        let ?act' = "data\<lparr>pl_audience := AudienceArray
                        ((case pl_audience data of AudienceArray xs \<Rightarrow> xs | _ \<Rightarrow> [])
                         @ [ae_followers ga])\<rparr>"
        let ?stamped = "?pushed\<lparr>activityObject := ?act'\<rparr>"
        obtain saved w1 where sv: "activityService_save ?stamped w = (saved, w1)"
          by (cases "activityService_save ?stamped w")
        have "truthy (a_uri ?stamped)"
          using ok by simp
        then have "a_uri ?stamped \<noteq> None"
          by (cases "a_uri ?stamped") (simp_all add: truthy_def)
        then have "dedup_step u w (snd (activityService_save ?stamped w))"
          by (intro save_dedup_step) simp
        then have q: "dedup_step u w w1"
          by (simp only: sv snd_conv)
        have "snd (handleIncoming deliver gn data w)
                = snd (bind_io (deliverToFollowers deliver saved grp)
                         (\<lambda>a. return_io (RetActivity a)) w1)"
          using Pair w' Inr True id ok ga sv
          by (cases "pl_audience data")
            (simp_all add: handleIncoming_def bind_io_def [of "groupService_findLocalByName gn"]
              Let_def)
        then have "activities (snd (handleIncoming deliver gn data w)) = activities w1"
          by (simp add: snd_bind_return deliverToFollowers_activities)
        then show ?thesis
          using dedup_step_cong [OF refl _ q] by simp
      qed
    next
      case notCreate: False
      show ?thesis
      proof (cases "pl_type data = ''Follow''")
        case False
        with notCreate Pair w' Inr show ?thesis
          by (simp add: handleIncoming_def bind_io_def Let_def dedup_step_refl)
      next
        case True
        obtain r1 w1 where fu: "userService_findByUri (pl_actor data) w = (r1, w1)"
          by (cases "userService_findByUri (pl_actor data) w")
        have a1: "activities w1 = activities w"
          using userService_findByUri_activities [of "pl_actor data" w] fu by simp
        show ?thesis
        proof (cases r1)
          case (Inl e)
          then have "snd (handleIncoming deliver gn data w) = w1"
            using Pair w' Inr True id fu
            by (simp add: handleIncoming_def bind_io_def Let_def)
          then show ?thesis using a1 by (simp add: dedup_step_frame)
        next
          case usr: (Inr usr)
          obtain saved w2 where sv: "activityService_save ?ent w1 = (saved, w2)"
            by (cases "activityService_save ?ent w1")
          have r1: "records_for u w1 = records_for u w"
            using a1 by (simp add: records_for_def)
          have "dedup_step u w1 (snd (activityService_save ?ent w1))"
            by (intro save_dedup_step) (simp only: r1 new)
          then have q12: "dedup_step u w1 w2"
            by (simp only: sv snd_conv)
          then have q2: "dedup_step u w w2"
            using dedup_step_cong [OF a1 [symmetric] refl] by blast
          obtain r3 w3 where af: "addFollower grp usr w2 = (r3, w3)"
            by (cases "addFollower grp usr w2")
          have a3: "activities w3 = activities w2"
            using addFollower_activities [of grp usr w2] af by simp
          have q3: "dedup_step u w w3"
            using dedup_step_cong [OF refl a3 q2] .
          let ?accept = "createAcceptActivity (g_uri grp) (pl_id data) (u_uri usr)"
          have h: "handleIncoming deliver gn data w =
                     (case r3 of
                        Inl e \<Rightarrow> (Inl e, w3)
                      | Inr result \<Rightarrow>
                          (if result
                           then bind_io (apGroup_acceptPostRequest deliver (g_name grp) ?accept)
                                  (\<lambda>response. return_io (RetPayload response))
                           else return_io (RetBool result)) w3)"
            using Pair w' Inr notCreate True id fu usr sv af
            by (cases r3) (simp_all add: handleIncoming_def bind_io_def Let_def)
          show ?thesis
          proof (cases r3)
            case (Inl e)
            with h q3 show ?thesis by simp
          next
            case res: (Inr result)
            show ?thesis
            proof (cases result)
              case False
              with h res q3 show ?thesis by (simp add: return_io_def)
            next
              case True
              have "pl_id ?accept = None"
                by (simp add: createAcceptActivity_def)
              then have "dedup_step u w3
                  (snd (apGroup_acceptPostRequest deliver (g_name grp) ?accept w3))"
                by (rule accept_dedup_step)
              with h res True q3 show ?thesis
                by (simp add: snd_bind_return) (rule dedup_step_trans)
            qed
          qed
        qed
      qed
    qed
  qed
qed

text \<open>
  C1. For every payload with an external URI, every group name and every state, two calls
  of \<open>handleIncoming\<close> with that payload and group create at most one activity record for
  the URI (none when the store holds one already), and every record of that URI the calls
  have written holds no group twice among its destination groups, the receiving group
  included.
\<close>

theorem handleIncoming_twice_one_record:
  assumes "pl_id data = Some u"
  shows "length (records_for u (snd (handleIncoming deliver gn data
                                  (snd (handleIncoming deliver gn data w)))))
           \<le> max 1 (length (records_for u w))
       \<and> (\<forall>a \<in> set (records_for u (snd (handleIncoming deliver gn data
                                            (snd (handleIncoming deliver gn data w))))).
             a \<in> set (records_for u w) \<or> distinct_destinations a)"
proof -
  let ?w1 = "snd (handleIncoming deliver gn data w)"
  let ?w2 = "snd (handleIncoming deliver gn data ?w1)"
  have "dedup_step u w ?w1" "dedup_step u ?w1 ?w2"
    using assms by (rule handleIncoming_dedup_step)+
  then have "dedup_step u w ?w2"
    by (rule dedup_step_trans)
  then show ?thesis
    by (simp add: dedup_step_def)
qed

lemma ex_follow_twice:
  "records_for ''https://remote.example/activity/u4'' ex_world = []
   \<and> map (\<lambda>a. (a_type a, map g_id (the_list (destinationGroups a))))
        (records_for ''https://remote.example/activity/u4'' ex_world_followed)
      = [(''Follow'', [1])]
   \<and> map (\<lambda>a. (a_type a, map g_id (the_list (destinationGroups a))))
        (records_for ''https://remote.example/activity/u4''
          (snd (handleIncoming (\<lambda>a t. True) ''g'' (ex_activity ''Follow'' ''u4'')
                  ex_world_followed)))
      = [(''Follow'', [1])]"
  by code_simp

theorem handleIncoming_twice_witness:
  "pl_id (ex_activity ''Follow'' ''u4'') = Some ''https://remote.example/activity/u4''
   \<and> length (records_for ''https://remote.example/activity/u4''
               (snd (handleIncoming (\<lambda>a t. True) ''g'' (ex_activity ''Follow'' ''u4'')
                  (snd (handleIncoming (\<lambda>a t. True) ''g'' (ex_activity ''Follow'' ''u4'')
                          ex_world)))))
        \<le> max 1 (length (records_for ''https://remote.example/activity/u4'' ex_world))
   \<and> map (\<lambda>a. (a_type a, map g_id (the_list (destinationGroups a))))
        (records_for ''https://remote.example/activity/u4''
          (snd (handleIncoming (\<lambda>a t. True) ''g'' (ex_activity ''Follow'' ''u4'')
             (snd (handleIncoming (\<lambda>a t. True) ''g'' (ex_activity ''Follow'' ''u4'')
                     ex_world)))))
      = [(''Follow'', [1])]"
proof -
  have i: "pl_id (ex_activity ''Follow'' ''u4'') = Some ''https://remote.example/activity/u4''"
    by (simp add: ex_activity_def)
  show ?thesis
    using handleIncoming_twice_one_record [OF i, of "\<lambda>a t. True" "''g''" ex_world]
      ex_follow_twice i
    unfolding ex_world_followed_def by blast
qed

end
